theory Spec2Isabelle
  imports Main
begin

section \<open>Data model (src/db/tables.ts, table definitions)\<close>

text \<open>
  Dates are milliseconds since the epoch. A column declared \<open>optional\<close> holds an
  \<open>option\<close>, with \<open>None\<close> for SQL NULL (which JavaScript reads as \<open>null\<close>). Text
  columns with an \<open>enum\<close> are datatypes with one constructor per allowed string.
\<close>

type_synonym date = int

datatype json = JNull | JBool bool | JNum int | JStr string
  | JArr "json list" | JObj "(string \<times> json) list"

datatype difficulty = Basic | Intermediate | Advanced

datatype origin = Ai | User | Curated

datatype status = Pending | Completed | Failed

datatype reaction = NoReaction | Like | Love | MindBlown | Meh

record topic =
  t_id :: int
  t_ownerId :: "string option"
  t_name :: string
  t_description :: "string option"
  t_slug :: "string option"
  t_isActive :: bool
  t_createdAt :: date
  t_updatedAt :: date

record fact =
  f_id :: int
  f_topicId :: "int option"
  f_content :: string
  f_difficulty :: difficulty
  f_source :: "string option"
  f_sourceMeta :: "json option"
  f_origin :: origin
  f_ownerId :: "string option"
  f_isActive :: bool
  f_createdAt :: date
  f_updatedAt :: date

record request =
  r_id :: int
  r_userId :: "string option"
  r_topicId :: "int option"
  r_prompt :: "string option"
  r_input :: "json option"
  r_output :: "json option"
  r_status :: status
  r_createdAt :: date

record fact_state =
  s_id :: int
  s_userId :: string
  s_factId :: int
  s_seen :: bool
  s_seenAt :: "date option"
  s_isFavorite :: bool
  s_reaction :: reaction
  s_createdAt :: date
  s_updatedAt :: date

text \<open>
  The relational store behind \<open>db\<close>: one list of rows per table, in row order. The
  handlers reach it through \<open>select\<close>, \<open>insert\<close> and \<open>update\<close> only; no handler deletes.
  The store assigns the primary keys and checks the \<open>references\<close> of a row it is asked
  to insert: \<open>Facts.topicId\<close> and \<open>FactRequests.topicId\<close> refer to \<open>FactTopics.id\<close> (NULL
  refers to nothing), \<open>UserFactState.factId\<close> refers to \<open>Facts.id\<close>.
\<close>

record store =
  FactTopics :: "topic list"
  Facts :: "fact list"
  FactRequests :: "request list"
  UserFactState :: "fact_state list"

section \<open>What a handler throws\<close>

text \<open>
  A handler throws an \<open>ActionError\<close> with a code and a message, or lets an error of the
  store through: the store rejects an insert whose reference has no row to refer to.
\<close>

datatype code = UNAUTHORIZED | NOT_FOUND

datatype action_error = ActionError code string | StoreError string

fun error_code :: "action_error \<Rightarrow> code option" where
  "error_code (ActionError c m) = Some c"
| "error_code (StoreError m) = None"

definition foreign_key_failed :: action_error where
  "foreign_key_failed = StoreError ''FOREIGN KEY constraint failed''"

section \<open>The store's primitives\<close>

text \<open>
  \<open>autoIncrement\<close> primary key: one more than the largest key of the table, 1 for an
  empty table.
\<close>

definition next_id :: "int list \<Rightarrow> int" where
  "next_id ids = foldr max ids 0 + 1"

text \<open>\<open>const [x] = rows\<close>: the first row, \<open>undefined\<close> (here \<open>None\<close>) when there is none.\<close>

fun first :: "'a list \<Rightarrow> 'a option" where
  "first [] = None"
| "first (x # xs) = Some x"

text \<open>\<open>db.select().from(T).where(P).limit(1)\<close>\<close>

definition select_one :: "('a \<Rightarrow> bool) \<Rightarrow> 'a list \<Rightarrow> 'a option" where
  "select_one P rows = first (filter P rows)"

text \<open>\<open>db.update(T).set(f).where(P).returning()\<close>: the new table and the updated rows.\<close>

definition update_where :: "('a \<Rightarrow> bool) \<Rightarrow> ('a \<Rightarrow> 'a) \<Rightarrow> 'a list \<Rightarrow> 'a list \<times> 'a list" where
  "update_where P f rows = (map (\<lambda>r. if P r then f r else r) rows, map f (filter P rows))"

text \<open>
  \<open>db.insert(T).values(row).returning()\<close>: the new table and the inserted rows, when
  the row's references hold; the store's error and no write, when they do not.
\<close>

definition insert_row :: "bool \<Rightarrow> 'a \<Rightarrow> 'a list \<Rightarrow> action_error + 'a list \<times> 'a list" where
  "insert_row references_hold row rows =
     (if references_hold then Inr (rows @ [row], [row]) else Inl foreign_key_failed)"

text \<open>JavaScript truthiness of a number that may be absent, and falsiness of a text
  that may be absent: \<open>0\<close> and the empty string are falsy, as \<open>null\<close> and \<open>undefined\<close> are.\<close>

definition truthy_num :: "int option \<Rightarrow> bool" where
  "truthy_num x = (case x of None \<Rightarrow> False | Some n \<Rightarrow> n \<noteq> 0)"

definition falsy_text :: "string option \<Rightarrow> bool" where
  "falsy_text x = (case x of None \<Rightarrow> True | Some s \<Rightarrow> s = [])"

section \<open>Request context\<close>

record user =
  u_id :: string

record locals =
  l_user :: "user option"

record action_context =
  c_locals :: "locals option"

text \<open>\<open>locals?.user\<close>\<close>

definition locals_user :: "action_context \<Rightarrow> user option" where
  "locals_user ctx = (case c_locals ctx of None \<Rightarrow> None | Some l \<Rightarrow> l_user l)"

definition unauthorized :: action_error where
  "unauthorized = ActionError UNAUTHORIZED ''You must be signed in to perform this action.''"

definition requireUser :: "action_context \<Rightarrow> action_error + user" where
  "requireUser ctx =
     (case locals_user ctx of
        None \<Rightarrow> Inl unauthorized
      | Some u \<Rightarrow> Inr u)"

text \<open>The row of \<open>select().from(FactTopics).where(eq(FactTopics.id, i)).limit(1)\<close> is defined.\<close>

definition topic_exists :: "store \<Rightarrow> int \<Rightarrow> bool" where
  "topic_exists db i = (select_one (\<lambda>t. t_id t = i) (FactTopics db) \<noteq> None)"

text \<open>The references of a row: an optional \<open>topicId\<close>, a required \<open>factId\<close>.\<close>

definition topic_reference_holds :: "store \<Rightarrow> int option \<Rightarrow> bool" where
  "topic_reference_holds db x = (case x of None \<Rightarrow> True | Some i \<Rightarrow> topic_exists db i)"

definition fact_reference_holds :: "store \<Rightarrow> int \<Rightarrow> bool" where
  "fact_reference_holds db i = (select_one (\<lambda>f. f_id f = i) (Facts db) \<noteq> None)"

section \<open>Topic handlers\<close>

text \<open>
  Every handler takes the store, the value \<open>now\<close> that \<open>new Date()\<close> reads during the
  call, the request context and the input as the schema has parsed it (an optional
  field is an \<open>option\<close>, \<open>None\<close> for \<open>undefined\<close>). A handler that writes returns its
  result with the store it leaves; a handler that only reads returns its result. A
  handler that throws leaves the store as it found it. The two updates that write a
  reference (\<open>updateFact\<close> a \<open>topicId\<close>, \<open>updateUserFactState\<close> a \<open>factId\<close>) are
  reached only after the handler has found the row referred to, so the store has
  nothing to reject there (\<open>updateFact_writes_existing_topic\<close> below).
\<close>

record createTopic_input =
  ct_name :: string
  ct_description :: "string option"
  ct_slug :: "string option"
  ct_isActive :: "bool option"

definition createTopic ::
  "store \<Rightarrow> date \<Rightarrow> action_context \<Rightarrow> createTopic_input \<Rightarrow> (action_error + topic option) \<times> store" where
  "createTopic db now ctx inp =
     (case requireUser ctx of
        Inl e \<Rightarrow> (Inl e, db)
      | Inr u \<Rightarrow>
          (case insert_row True
                  \<lparr>t_id = next_id (map t_id (FactTopics db)),
                   t_ownerId = Some (u_id u),
                   t_name = ct_name inp,
                   t_description = ct_description inp,
                   t_slug = ct_slug inp,
                   t_isActive = (case ct_isActive inp of None \<Rightarrow> True | Some b \<Rightarrow> b),
                   t_createdAt = now,
                   t_updatedAt = now\<rparr>
                  (FactTopics db) of
             Inl e \<Rightarrow> (Inl e, db)
           | Inr (rows, returned) \<Rightarrow> (Inr (first returned), db\<lparr>FactTopics := rows\<rparr>)))"

record updateTopic_input =
  ut_id :: int
  ut_name :: "string option"
  ut_description :: "string option"
  ut_slug :: "string option"
  ut_isActive :: "bool option"

text \<open>\<open>Object.keys(updateData).length === 0\<close>: no field of \<open>rest\<close> is defined.\<close>

definition topic_updateData_empty :: "updateTopic_input \<Rightarrow> bool" where
  "topic_updateData_empty inp =
     (ut_name inp = None \<and> ut_description inp = None \<and> ut_slug inp = None \<and> ut_isActive inp = None)"

text \<open>\<open>.set({...updateData, updatedAt: new Date()})\<close> on one row.\<close>

definition topic_set :: "updateTopic_input \<Rightarrow> date \<Rightarrow> topic \<Rightarrow> topic" where
  "topic_set inp now t =
     t\<lparr>t_name := (case ut_name inp of None \<Rightarrow> t_name t | Some v \<Rightarrow> v),
       t_description := (case ut_description inp of None \<Rightarrow> t_description t | Some v \<Rightarrow> Some v),
       t_slug := (case ut_slug inp of None \<Rightarrow> t_slug t | Some v \<Rightarrow> Some v),
       t_isActive := (case ut_isActive inp of None \<Rightarrow> t_isActive t | Some v \<Rightarrow> v),
       t_updatedAt := now\<rparr>"

definition owned_topic :: "int \<Rightarrow> user \<Rightarrow> topic \<Rightarrow> bool" where
  "owned_topic i u t = (t_id t = i \<and> t_ownerId t = Some (u_id u))"

definition updateTopic ::
  "store \<Rightarrow> date \<Rightarrow> action_context \<Rightarrow> updateTopic_input \<Rightarrow> (action_error + topic option) \<times> store" where
  "updateTopic db now ctx inp =
     (case requireUser ctx of
        Inl e \<Rightarrow> (Inl e, db)
      | Inr u \<Rightarrow>
          (case select_one (owned_topic (ut_id inp) u) (FactTopics db) of
             None \<Rightarrow> (Inl (ActionError NOT_FOUND ''Topic not found.''), db)
           | Some existing \<Rightarrow>
               if topic_updateData_empty inp then (Inr (Some existing), db)
               else
                 (case update_where (owned_topic (ut_id inp) u) (topic_set inp now) (FactTopics db) of
                    (rows, returned) \<Rightarrow> (Inr (first returned), db\<lparr>FactTopics := rows\<rparr>))))"

record listTopics_input =
  lt_includeInactive :: "bool option"

definition listTopics ::
  "store \<Rightarrow> action_context \<Rightarrow> listTopics_input option \<Rightarrow> action_error + topic list" where
  "listTopics db ctx input =
     (case requireUser ctx of
        Inl e \<Rightarrow> Inl e
      | Inr u \<Rightarrow>
          (let includeInactive =
                 (case (case input of None \<Rightarrow> None | Some i \<Rightarrow> lt_includeInactive i) of
                    None \<Rightarrow> False | Some b \<Rightarrow> b)
           in Inr (filter
                (\<lambda>topic.
                   (falsy_text (t_ownerId topic) \<or> t_ownerId topic = Some (u_id u))
                   \<and> (if includeInactive then True else t_isActive topic))
                (FactTopics db))))"

section \<open>Fact handlers\<close>

record createFact_input =
  cf_topicId :: "int option"
  cf_content :: string
  cf_difficulty :: "difficulty option"
  cf_source :: "string option"
  cf_sourceMeta :: "json option"
  cf_origin :: "origin option"
  cf_isActive :: "bool option"

definition createFact ::
  "store \<Rightarrow> date \<Rightarrow> action_context \<Rightarrow> createFact_input \<Rightarrow> (action_error + fact option) \<times> store" where
  "createFact db now ctx inp =
     (case requireUser ctx of
        Inl e \<Rightarrow> (Inl e, db)
      | Inr u \<Rightarrow>
          if (case cf_topicId inp of None \<Rightarrow> False
              | Some i \<Rightarrow> truthy_num (Some i) \<and> \<not> topic_exists db i)
          then (Inl (ActionError NOT_FOUND ''Topic not found.''), db)
          else
            (case insert_row (topic_reference_holds db (cf_topicId inp))
                    \<lparr>f_id = next_id (map f_id (Facts db)),
                     f_topicId = cf_topicId inp,
                     f_content = cf_content inp,
                     f_difficulty = (case cf_difficulty inp of None \<Rightarrow> Basic | Some d \<Rightarrow> d),
                     f_source = cf_source inp,
                     f_sourceMeta = cf_sourceMeta inp,
                     f_origin = (case cf_origin inp of None \<Rightarrow> Ai | Some x \<Rightarrow> x),
                     f_ownerId = Some (u_id u),
                     f_isActive = (case cf_isActive inp of None \<Rightarrow> True | Some b \<Rightarrow> b),
                     f_createdAt = now,
                     f_updatedAt = now\<rparr>
                    (Facts db) of
               Inl e \<Rightarrow> (Inl e, db)
             | Inr (rows, returned) \<Rightarrow> (Inr (first returned), db\<lparr>Facts := rows\<rparr>)))"

record updateFact_input =
  uf_id :: int
  uf_topicId :: "int option"
  uf_content :: "string option"
  uf_difficulty :: "difficulty option"
  uf_source :: "string option"
  uf_sourceMeta :: "json option"
  uf_origin :: "origin option"
  uf_isActive :: "bool option"

definition fact_updateData_empty :: "updateFact_input \<Rightarrow> bool" where
  "fact_updateData_empty inp =
     (uf_topicId inp = None \<and> uf_content inp = None \<and> uf_difficulty inp = None
      \<and> uf_source inp = None \<and> uf_sourceMeta inp = None \<and> uf_origin inp = None
      \<and> uf_isActive inp = None)"

definition fact_set :: "updateFact_input \<Rightarrow> date \<Rightarrow> fact \<Rightarrow> fact" where
  "fact_set inp now f =
     f\<lparr>f_topicId := (case uf_topicId inp of None \<Rightarrow> f_topicId f | Some v \<Rightarrow> Some v),
       f_content := (case uf_content inp of None \<Rightarrow> f_content f | Some v \<Rightarrow> v),
       f_difficulty := (case uf_difficulty inp of None \<Rightarrow> f_difficulty f | Some v \<Rightarrow> v),
       f_source := (case uf_source inp of None \<Rightarrow> f_source f | Some v \<Rightarrow> Some v),
       f_sourceMeta := (case uf_sourceMeta inp of None \<Rightarrow> f_sourceMeta f | Some v \<Rightarrow> Some v),
       f_origin := (case uf_origin inp of None \<Rightarrow> f_origin f | Some v \<Rightarrow> v),
       f_isActive := (case uf_isActive inp of None \<Rightarrow> f_isActive f | Some v \<Rightarrow> v),
       f_updatedAt := now\<rparr>"

definition owned_fact :: "int \<Rightarrow> user \<Rightarrow> fact \<Rightarrow> bool" where
  "owned_fact i u f = (f_id f = i \<and> f_ownerId f = Some (u_id u))"

definition updateFact ::
  "store \<Rightarrow> date \<Rightarrow> action_context \<Rightarrow> updateFact_input \<Rightarrow> (action_error + fact option) \<times> store" where
  "updateFact db now ctx inp =
     (case requireUser ctx of
        Inl e \<Rightarrow> (Inl e, db)
      | Inr u \<Rightarrow>
          (case select_one (owned_fact (uf_id inp) u) (Facts db) of
             None \<Rightarrow> (Inl (ActionError NOT_FOUND ''Fact not found.''), db)
           | Some existing \<Rightarrow>
               if (case uf_topicId inp of None \<Rightarrow> False | Some i \<Rightarrow> \<not> topic_exists db i)
               then (Inl (ActionError NOT_FOUND ''Topic not found.''), db)
               else if fact_updateData_empty inp then (Inr (Some existing), db)
               else
                 (case update_where (owned_fact (uf_id inp) u) (fact_set inp now) (Facts db) of
                    (rows, returned) \<Rightarrow> (Inr (first returned), db\<lparr>Facts := rows\<rparr>))))"

record listFacts_input =
  lf_topicId :: "int option"
  lf_includeInactive :: "bool option"

definition listFacts ::
  "store \<Rightarrow> action_context \<Rightarrow> listFacts_input option \<Rightarrow> action_error + fact list" where
  "listFacts db ctx input =
     (case requireUser ctx of
        Inl e \<Rightarrow> Inl e
      | Inr u \<Rightarrow>
          (let includeInactive =
                 (case (case input of None \<Rightarrow> None | Some i \<Rightarrow> lf_includeInactive i) of
                    None \<Rightarrow> False | Some b \<Rightarrow> b);
               topicId = (case input of None \<Rightarrow> None | Some i \<Rightarrow> lf_topicId i)
           in Inr (filter
                (\<lambda>row.
                   (if truthy_num topicId then f_topicId row = topicId else True)
                   \<and> (falsy_text (f_ownerId row) \<or> f_ownerId row = Some (u_id u))
                   \<and> (if includeInactive then True else f_isActive row))
                (Facts db))))"

section \<open>Request handler\<close>

record createRequest_input =
  cr_topicId :: "int option"
  cr_prompt :: "string option"
  cr_input :: "json option"
  cr_output :: "json option"
  cr_status :: "status option"

definition createRequest ::
  "store \<Rightarrow> date \<Rightarrow> action_context \<Rightarrow> createRequest_input \<Rightarrow> (action_error + request option) \<times> store" where
  "createRequest db now ctx inp =
     (case requireUser ctx of
        Inl e \<Rightarrow> (Inl e, db)
      | Inr u \<Rightarrow>
          if (case cr_topicId inp of None \<Rightarrow> False
              | Some i \<Rightarrow> truthy_num (Some i) \<and> \<not> topic_exists db i)
          then (Inl (ActionError NOT_FOUND ''Topic not found.''), db)
          else
            (case insert_row (topic_reference_holds db (cr_topicId inp))
                    \<lparr>r_id = next_id (map r_id (FactRequests db)),
                     r_userId = Some (u_id u),
                     r_topicId = cr_topicId inp,
                     r_prompt = cr_prompt inp,
                     r_input = cr_input inp,
                     r_output = cr_output inp,
                     r_status = (case cr_status inp of None \<Rightarrow> Pending | Some x \<Rightarrow> x),
                     r_createdAt = now\<rparr>
                    (FactRequests db) of
               Inl e \<Rightarrow> (Inl e, db)
             | Inr (rows, returned) \<Rightarrow> (Inr (first returned), db\<lparr>FactRequests := rows\<rparr>)))"

section \<open>User state handlers\<close>

record updateUserFactState_input =
  us_factId :: int
  us_seen :: "bool option"
  us_seenAt :: "date option"
  us_isFavorite :: "bool option"
  us_reaction :: "reaction option"

definition state_of :: "int \<Rightarrow> user \<Rightarrow> fact_state \<Rightarrow> bool" where
  "state_of i u r = (s_factId r = i \<and> s_userId r = u_id u)"

text \<open>
  \<open>baseValues\<close>, written over a row: by \<open>set\<close> over the existing row (the key \<open>id\<close> is
  not among the values), by \<open>values\<close> over the fresh row of an insert, whose \<open>seenAt\<close>
  is NULL.
\<close>

definition baseValues ::
  "updateUserFactState_input \<Rightarrow> user \<Rightarrow> date \<Rightarrow> fact_state option \<Rightarrow> fact_state \<Rightarrow> fact_state" where
  "baseValues inp u now existing r =
     r\<lparr>s_factId := us_factId inp,
       s_userId := u_id u,
       s_seen := (case us_seen inp of Some v \<Rightarrow> v
                  | None \<Rightarrow> (case existing of Some e \<Rightarrow> s_seen e | None \<Rightarrow> False)),
       s_seenAt := (case us_seenAt inp of Some v \<Rightarrow> Some v
                  | None \<Rightarrow> (case existing of Some e \<Rightarrow> s_seenAt e | None \<Rightarrow> None)),
       s_isFavorite := (case us_isFavorite inp of Some v \<Rightarrow> v
                  | None \<Rightarrow> (case existing of Some e \<Rightarrow> s_isFavorite e | None \<Rightarrow> False)),
       s_reaction := (case us_reaction inp of Some v \<Rightarrow> v
                  | None \<Rightarrow> (case existing of Some e \<Rightarrow> s_reaction e | None \<Rightarrow> NoReaction)),
       s_createdAt := (case existing of Some e \<Rightarrow> s_createdAt e | None \<Rightarrow> now),
       s_updatedAt := now\<rparr>"

definition fresh_state :: "int \<Rightarrow> fact_state" where
  "fresh_state i =
     \<lparr>s_id = i, s_userId = [], s_factId = 0, s_seen = False, s_seenAt = None,
      s_isFavorite = False, s_reaction = NoReaction, s_createdAt = 0, s_updatedAt = 0\<rparr>"

definition updateUserFactState ::
  "store \<Rightarrow> date \<Rightarrow> action_context \<Rightarrow> updateUserFactState_input
     \<Rightarrow> (action_error + fact_state option) \<times> store" where
  "updateUserFactState db now ctx inp =
     (case requireUser ctx of
        Inl e \<Rightarrow> (Inl e, db)
      | Inr u \<Rightarrow>
          (case select_one (\<lambda>f. f_id f = us_factId inp) (Facts db) of
             None \<Rightarrow> (Inl (ActionError NOT_FOUND ''Fact not found.''), db)
           | Some found_fact \<Rightarrow>
               (case select_one (state_of (us_factId inp) u) (UserFactState db) of
                  Some existing \<Rightarrow>
                    (case update_where (\<lambda>r. s_id r = s_id existing)
                            (baseValues inp u now (Some existing)) (UserFactState db) of
                       (rows, returned) \<Rightarrow> (Inr (first returned), db\<lparr>UserFactState := rows\<rparr>))
                | None \<Rightarrow>
                    (case insert_row (fact_reference_holds db (us_factId inp))
                            (baseValues inp u now None
                               (fresh_state (next_id (map s_id (UserFactState db)))))
                            (UserFactState db) of
                       Inl e \<Rightarrow> (Inl e, db)
                     | Inr (rows, returned) \<Rightarrow>
                         (Inr (first returned), db\<lparr>UserFactState := rows\<rparr>)))))"

record listUserFactState_input =
  ls_onlyFavorites :: "bool option"

definition listUserFactState ::
  "store \<Rightarrow> action_context \<Rightarrow> listUserFactState_input option \<Rightarrow> action_error + fact_state list" where
  "listUserFactState db ctx input =
     (case requireUser ctx of
        Inl e \<Rightarrow> Inl e
      | Inr u \<Rightarrow>
          (let states = filter (\<lambda>r. s_userId r = u_id u) (UserFactState db)
           in Inr (if (case (case input of None \<Rightarrow> None | Some i \<Rightarrow> ls_onlyFavorites i) of
                         None \<Rightarrow> False | Some b \<Rightarrow> b)
                   then filter (\<lambda>s. s_isFavorite s) states else states)))"

section \<open>Sample data\<close>

definition signed_in :: "user \<Rightarrow> action_context" where
  "signed_in u = \<lparr>c_locals = Some \<lparr>l_user = Some u\<rparr>\<rparr>"

definition anonymous :: action_context where
  "anonymous = \<lparr>c_locals = Some \<lparr>l_user = None\<rparr>\<rparr>"

definition alice :: user where
  "alice = \<lparr>u_id = ''alice''\<rparr>"

definition bob :: user where
  "bob = \<lparr>u_id = ''bob''\<rparr>"

definition empty_store :: store where
  "empty_store = \<lparr>FactTopics = [], Facts = [], FactRequests = [], UserFactState = []\<rparr>"

definition space_topic :: topic where
  "space_topic =
     \<lparr>t_id = 1, t_ownerId = Some ''alice'', t_name = ''Space'', t_description = None,
      t_slug = Some ''space'', t_isActive = True, t_createdAt = 100, t_updatedAt = 100\<rparr>"

definition shared_topic :: topic where
  "shared_topic =
     \<lparr>t_id = 2, t_ownerId = None, t_name = ''History'', t_description = None,
      t_slug = None, t_isActive = True, t_createdAt = 110, t_updatedAt = 110\<rparr>"

definition retired_topic :: topic where
  "retired_topic =
     \<lparr>t_id = 3, t_ownerId = Some ''bob'', t_name = ''Biology'', t_description = None,
      t_slug = None, t_isActive = False, t_createdAt = 120, t_updatedAt = 130\<rparr>"

definition sun_fact :: fact where
  "sun_fact =
     \<lparr>f_id = 1, f_topicId = Some 1, f_content = ''The sun is a star'', f_difficulty = Basic,
      f_source = None, f_sourceMeta = None, f_origin = User, f_ownerId = Some ''alice'',
      f_isActive = False, f_createdAt = 140, f_updatedAt = 140\<rparr>"

definition rome_fact :: fact where
  "rome_fact =
     \<lparr>f_id = 2, f_topicId = Some 2, f_content = ''Rome was a republic'', f_difficulty = Advanced,
      f_source = Some ''Livy'', f_sourceMeta = Some (JObj [(''book'', JNum 2)]), f_origin = Curated,
      f_ownerId = None, f_isActive = True, f_createdAt = 150, f_updatedAt = 150\<rparr>"

definition cell_fact :: fact where
  "cell_fact =
     \<lparr>f_id = 3, f_topicId = None, f_content = ''Cells divide'', f_difficulty = Basic,
      f_source = None, f_sourceMeta = None, f_origin = Ai, f_ownerId = Some ''bob'',
      f_isActive = True, f_createdAt = 160, f_updatedAt = 160\<rparr>"

definition sample_store :: store where
  "sample_store =
     \<lparr>FactTopics = [space_topic, shared_topic, retired_topic],
      Facts = [sun_fact, rome_fact, cell_fact],
      FactRequests = [],
      UserFactState = []\<rparr>"

definition nameless :: user where
  "nameless = \<lparr>u_id = []\<rparr>"

text \<open>The store after a user whose id is the empty string has created a topic and a fact.\<close>

definition nameless_store :: store where
  "nameless_store =
     snd (createFact
       (snd (createTopic empty_store 100 (signed_in nameless)
          \<lparr>ct_name = ''Space'', ct_description = None, ct_slug = None, ct_isActive = None\<rparr>))
       100 (signed_in nameless)
       \<lparr>cf_topicId = None, cf_content = ''The sun is a star'', cf_difficulty = None,
        cf_source = None, cf_sourceMeta = None, cf_origin = None, cf_isActive = None\<rparr>)"

definition nameless_topic :: topic where
  "nameless_topic =
     \<lparr>t_id = 1, t_ownerId = Some [], t_name = ''Space'', t_description = None,
      t_slug = None, t_isActive = True, t_createdAt = 100, t_updatedAt = 100\<rparr>"

definition nameless_fact :: fact where
  "nameless_fact =
     \<lparr>f_id = 1, f_topicId = None, f_content = ''The sun is a star'',
      f_difficulty = Basic, f_source = None, f_sourceMeta = None, f_origin = Ai,
      f_ownerId = Some [], f_isActive = True, f_createdAt = 100, f_updatedAt = 100\<rparr>"

definition history_request :: request where
  "history_request =
     \<lparr>r_id = 1, r_userId = Some ''bob'', r_topicId = Some 2,
      r_prompt = Some ''five facts'', r_input = Some (JObj [(''count'', JNum 5)]),
      r_output = None, r_status = Pending, r_createdAt = 200\<rparr>"

definition bob_rome_state :: fact_state where
  "bob_rome_state =
     \<lparr>s_id = 1, s_userId = ''bob'', s_factId = 2, s_seen = True, s_seenAt = Some 170,
      s_isFavorite = False, s_reaction = Like, s_createdAt = 170, s_updatedAt = 170\<rparr>"

definition alice_rome_state :: fact_state where
  "alice_rome_state =
     \<lparr>s_id = 2, s_userId = ''alice'', s_factId = 2, s_seen = False, s_seenAt = None,
      s_isFavorite = True, s_reaction = NoReaction, s_createdAt = 180, s_updatedAt = 180\<rparr>"

definition viewed_store :: store where
  "viewed_store = sample_store\<lparr>UserFactState := [bob_rome_state, alice_rome_state]\<rparr>"

text \<open>The key that the upsert keeps unique: the pair of user and fact.\<close>

definition state_key :: "fact_state \<Rightarrow> string \<times> int" where
  "state_key r = (s_userId r, s_factId r)"

section \<open>Stores reached by calls in sequence\<close>

text \<open>The stores that calls of the writing handlers, one after another, make of the empty store.\<close>

inductive reachable :: "store \<Rightarrow> bool" where
  start: "reachable empty_store"
| topic_created: "reachable db \<Longrightarrow> reachable (snd (createTopic db now ctx ct))"
| topic_updated: "reachable db \<Longrightarrow> reachable (snd (updateTopic db now ctx ut))"
| fact_created: "reachable db \<Longrightarrow> reachable (snd (createFact db now ctx cf))"
| fact_updated: "reachable db \<Longrightarrow> reachable (snd (updateFact db now ctx uf))"
| request_created: "reachable db \<Longrightarrow> reachable (snd (createRequest db now ctx cr))"
| state_updated: "reachable db \<Longrightarrow> reachable (snd (updateUserFactState db now ctx us))"

section \<open>Visibility as the specification words it\<close>

text \<open>
  The specification's reading of the two list filters, to compare with the handlers:
  a row is visible when its \<open>ownerId\<close> is unset or the caller's, it is active or inactive
  rows were asked for, and (for facts) its topic is the one asked for, if one was.
\<close>

definition spec_topic_visible :: "user \<Rightarrow> bool \<Rightarrow> topic \<Rightarrow> bool" where
  "spec_topic_visible u includeInactive t =
     ((t_ownerId t = None \<or> t_ownerId t = Some (u_id u)) \<and> (t_isActive t \<or> includeInactive))"

definition spec_fact_visible :: "user \<Rightarrow> int option \<Rightarrow> bool \<Rightarrow> fact \<Rightarrow> bool" where
  "spec_fact_visible u topicId includeInactive f =
     ((case topicId of None \<Rightarrow> True | Some i \<Rightarrow> f_topicId f = Some i)
      \<and> (f_ownerId f = None \<or> f_ownerId f = Some (u_id u))
      \<and> (f_isActive f \<or> includeInactive))"

lemmas sample_defs =
  signed_in_def anonymous_def alice_def bob_def empty_store_def space_topic_def shared_topic_def
  retired_topic_def sun_fact_def rome_fact_def cell_fact_def sample_store_def

lemmas viewed_defs = bob_rome_state_def alice_rome_state_def viewed_store_def

section \<open>Facts about the store's primitives\<close>

lemma requireUser_none: "locals_user ctx = None \<Longrightarrow> requireUser ctx = Inl unauthorized"
  by (simp add: requireUser_def)

lemma requireUser_some: "locals_user ctx = Some u \<Longrightarrow> requireUser ctx = Inr u"
  by (simp add: requireUser_def)

lemma locals_user_signed_in: "locals_user (signed_in u) = Some u"
  by (simp add: locals_user_def signed_in_def)

lemma key_unique:
  assumes "distinct (map k rows)" and "x \<in> set rows" and "y \<in> set rows" and "k x = k y"
  shows "x = y"
  using assms by (meson distinct_map inj_onD)

lemma select_one_none_iff: "select_one P rows = None \<longleftrightarrow> (\<forall>r\<in>set rows. \<not> P r)"
  unfolding select_one_def
  by (induction rows) auto

lemma select_one_some_mem: "select_one P rows = Some x \<Longrightarrow> x \<in> set rows \<and> P x"
  unfolding select_one_def
  by (induction rows) (auto split: if_splits)

lemma falsy_text_iff: "falsy_text x \<longleftrightarrow> x = None \<or> x = Some []"
  by (simp add: falsy_text_def split: option.split)

lemma update_returns_row:
  assumes "e \<in> set rows" and "P e"
  shows "\<exists>x. first (map f (filter P rows)) = Some (f x)
           \<and> f x \<in> set (map (\<lambda>r. if P r then f r else r) rows)"
  using assms
proof (induction rows)
  case Nil
  then show ?case by simp
next
  case (Cons a rows)
  show ?case
  proof (cases "P a")
    case True
    then show ?thesis by auto
  next
    case False
    with Cons.prems have "e \<in> set rows" by auto
    from Cons.IH [OF this Cons.prems(2)] False show ?thesis by auto
  qed
qed

lemma nameless_store_eq:
  "nameless_store = \<lparr>FactTopics = [nameless_topic], Facts = [nameless_fact],
     FactRequests = [], UserFactState = []\<rparr>"
  by (simp add: nameless_store_def createTopic_def createFact_def requireUser_def locals_user_def
      signed_in_def nameless_def insert_row_def topic_reference_holds_def next_id_def
      empty_store_def nameless_topic_def nameless_fact_def)

section \<open>The guard\<close>

text \<open>
  Claim C8. When the request context holds no user (no \<open>locals\<close>, or \<open>locals\<close> without
  \<open>user\<close>), each of the nine handlers fails with the \<open>UNAUTHORIZED\<close> error, and the
  handlers that write return the store as they found it.
\<close>

theorem unauthenticated_call_fails_without_effect:
  assumes "locals_user ctx = None"
  shows "createTopic db now ctx ct = (Inl unauthorized, db)
    \<and> updateTopic db now ctx ut = (Inl unauthorized, db)
    \<and> listTopics db ctx lt = Inl unauthorized
    \<and> createFact db now ctx cf = (Inl unauthorized, db)
    \<and> updateFact db now ctx uf = (Inl unauthorized, db)
    \<and> listFacts db ctx lf = Inl unauthorized
    \<and> createRequest db now ctx cr = (Inl unauthorized, db)
    \<and> updateUserFactState db now ctx us = (Inl unauthorized, db)
    \<and> listUserFactState db ctx ls = Inl unauthorized
    \<and> error_code unauthorized = Some UNAUTHORIZED"
  using requireUser_none [OF assms]
  by (simp add: createTopic_def updateTopic_def listTopics_def createFact_def updateFact_def
      listFacts_def createRequest_def updateUserFactState_def listUserFactState_def
      unauthorized_def)

theorem unauthenticated_call_witness:
  "locals_user anonymous = None
   \<and> createTopic sample_store 200 anonymous
        \<lparr>ct_name = ''Space'', ct_description = None, ct_slug = None, ct_isActive = None\<rparr>
      = (Inl unauthorized, sample_store)
   \<and> updateTopic sample_store 200 anonymous
        \<lparr>ut_id = 1, ut_name = Some ''Astronomy'', ut_description = None, ut_slug = None,
         ut_isActive = None\<rparr>
      = (Inl unauthorized, sample_store)
   \<and> listTopics sample_store anonymous None = Inl unauthorized
   \<and> updateUserFactState sample_store 200 \<lparr>c_locals = None\<rparr>
        \<lparr>us_factId = 1, us_seen = Some True, us_seenAt = None, us_isFavorite = None,
         us_reaction = None\<rparr>
      = (Inl unauthorized, sample_store)"
proof -
  have a: "locals_user anonymous = None"
    by (simp add: locals_user_def anonymous_def)
  have b: "locals_user \<lparr>c_locals = None\<rparr> = None"
    by (simp add: locals_user_def)
  show ?thesis
    using a unauthenticated_call_fails_without_effect [OF a]
      unauthenticated_call_fails_without_effect [OF b]
    by simp
qed

section \<open>Ownership of topics\<close>

text \<open>
  Claim C1. Let the primary key of the topics be unique. For a topic of the store and
  a signed-in caller whose id is not the topic's \<open>ownerId\<close> (the \<open>ownerId\<close> may be
  NULL), \<open>updateTopic\<close> on that topic's id fails with \<open>NOT_FOUND\<close> and returns the
  store as it was, whatever fields the input provides.
\<close>

theorem updateTopic_by_other_user_not_found:
  assumes auth: "locals_user ctx = Some u"
    and pk: "distinct (map t_id (FactTopics db))"
    and row: "t \<in> set (FactTopics db)"
    and other: "t_ownerId t \<noteq> Some (u_id u)"
    and target: "ut_id inp = t_id t"
  shows "updateTopic db now ctx inp = (Inl (ActionError NOT_FOUND ''Topic not found.''), db)"
proof -
  have "\<not> owned_topic (ut_id inp) u r" if "r \<in> set (FactTopics db)" for r
  proof
    assume o: "owned_topic (ut_id inp) u r"
    then have "t_id r = t_id t" by (simp add: owned_topic_def target)
    with pk that row have "r = t" by (rule key_unique)
    with o other show False by (simp add: owned_topic_def)
  qed
  then have "select_one (owned_topic (ut_id inp) u) (FactTopics db) = None"
    by (simp add: select_one_none_iff)
  then show ?thesis
    by (simp add: updateTopic_def requireUser_some [OF auth])
qed

theorem updateTopic_by_other_user_witness:
  "updateTopic sample_store 200 (signed_in bob)
     \<lparr>ut_id = 1, ut_name = Some ''Astronomy'', ut_description = None, ut_slug = None,
      ut_isActive = None\<rparr>
   = (Inl (ActionError NOT_FOUND ''Topic not found.''), sample_store)
   \<and> updateTopic sample_store 200 (signed_in bob)
     \<lparr>ut_id = 2, ut_name = None, ut_description = None, ut_slug = None,
      ut_isActive = Some False\<rparr>
   = (Inl (ActionError NOT_FOUND ''Topic not found.''), sample_store)"
proof -
  have pk: "distinct (map t_id (FactTopics sample_store))"
    by (simp add: sample_defs)
  have owned: "t_ownerId space_topic \<noteq> Some (u_id bob)"
    by (simp add: sample_defs)
  have unowned: "t_ownerId shared_topic \<noteq> Some (u_id bob)"
    by (simp add: sample_defs)
  have in1: "space_topic \<in> set (FactTopics sample_store)"
    and in2: "shared_topic \<in> set (FactTopics sample_store)"
    by (simp_all add: sample_store_def)
  show ?thesis
    using updateTopic_by_other_user_not_found [OF locals_user_signed_in pk in1 owned, of _ 200]
      updateTopic_by_other_user_not_found [OF locals_user_signed_in pk in2 unowned, of _ 200]
    by (simp add: space_topic_def shared_topic_def)
qed

section \<open>Listing topics and facts\<close>

text \<open>
  Claim C6, as the specification states it, fails: a topic whose \<open>ownerId\<close> is the
  empty string is set, is not the caller's, and is listed for the caller \<open>alice\<close>,
  because \<open>!topic.ownerId\<close> holds for the empty string.
\<close>

theorem listTopics_spec_counterexample:
  "listTopics nameless_store (signed_in alice) None
     \<noteq> Inr (filter (spec_topic_visible alice False) (FactTopics nameless_store))"
  by (simp add: nameless_store_eq listTopics_def requireUser_def locals_user_def signed_in_def
      falsy_text_def spec_topic_visible_def nameless_topic_def alice_def)

text \<open>
  Claim C6, amended. For a signed-in caller, \<open>listTopics\<close> returns, in table order,
  exactly the topics whose \<open>ownerId\<close> is unset, the empty string or the caller's id, and
  that are active unless the input asks for inactive topics with \<open>includeInactive = true\<close>.
\<close>

theorem listTopics_returns_visible:
  assumes auth: "locals_user ctx = Some u"
  shows "listTopics db ctx input =
    Inr (filter (\<lambda>t. (t_ownerId t = None \<or> t_ownerId t = Some [] \<or> t_ownerId t = Some (u_id u))
                    \<and> (t_isActive t \<or> (case input of None \<Rightarrow> False
                                         | Some i \<Rightarrow> lt_includeInactive i = Some True)))
          (FactTopics db))"
  unfolding listTopics_def requireUser_some [OF auth] Let_def falsy_text_iff
  by (cases input) (auto split: option.splits intro!: filter_cong)

theorem listTopics_returns_visible_witness:
  "listTopics sample_store (signed_in bob) None = Inr [shared_topic]
   \<and> listTopics sample_store (signed_in bob) (Some \<lparr>lt_includeInactive = Some True\<rparr>)
       = Inr [shared_topic, retired_topic]"
  using listTopics_returns_visible [OF locals_user_signed_in, of sample_store bob None]
    listTopics_returns_visible [OF locals_user_signed_in, of sample_store bob
      "Some \<lparr>lt_includeInactive = Some True\<rparr>"]
  by (simp add: sample_defs)

text \<open>
  Claim C7, as the specification states it, fails in the same way: a fact whose
  \<open>ownerId\<close> is the empty string is listed for the caller \<open>alice\<close>.
\<close>

theorem listFacts_spec_counterexample:
  "listFacts nameless_store (signed_in alice) None
     \<noteq> Inr (filter (spec_fact_visible alice None False) (Facts nameless_store))"
  by (simp add: nameless_store_eq listFacts_def requireUser_def locals_user_def signed_in_def
      falsy_text_def truthy_num_def spec_fact_visible_def nameless_fact_def alice_def)

text \<open>
  Claim C7, amended. For a signed-in caller and an input whose \<open>topicId\<close> is absent or
  not zero, \<open>listFacts\<close> returns, in table order, exactly the facts whose \<open>topicId\<close> is
  the one given (when one is given), whose \<open>ownerId\<close> is unset, the empty string or the
  caller's id, and that are active unless the input asks for inactive facts.
\<close>

theorem listFacts_returns_visible:
  assumes auth: "locals_user ctx = Some u"
    and nonzero: "(case input of None \<Rightarrow> None | Some i \<Rightarrow> lf_topicId i) \<noteq> Some 0"
  shows "listFacts db ctx input =
    Inr (filter
          (\<lambda>f. (case (case input of None \<Rightarrow> None | Some i \<Rightarrow> lf_topicId i) of
                   None \<Rightarrow> True | Some i \<Rightarrow> f_topicId f = Some i)
              \<and> (f_ownerId f = None \<or> f_ownerId f = Some [] \<or> f_ownerId f = Some (u_id u))
              \<and> (f_isActive f \<or> (case input of None \<Rightarrow> False
                                   | Some i \<Rightarrow> lf_includeInactive i = Some True)))
          (Facts db))"
  using nonzero
  unfolding listFacts_def requireUser_some [OF auth] Let_def falsy_text_iff truthy_num_def
  by (cases input) (auto split: option.splits intro!: filter_cong)

theorem listFacts_returns_visible_witness:
  "listFacts sample_store (signed_in bob) None = Inr [rome_fact, cell_fact]
   \<and> listFacts sample_store (signed_in alice)
        (Some \<lparr>lf_topicId = Some 1, lf_includeInactive = Some True\<rparr>) = Inr [sun_fact]
   \<and> listFacts sample_store (signed_in alice)
        (Some \<lparr>lf_topicId = Some 1, lf_includeInactive = None\<rparr>) = Inr []"
  using listFacts_returns_visible [OF locals_user_signed_in, of None sample_store bob]
    listFacts_returns_visible [OF locals_user_signed_in,
      of "Some \<lparr>lf_topicId = Some 1, lf_includeInactive = Some True\<rparr>" sample_store alice]
    listFacts_returns_visible [OF locals_user_signed_in,
      of "Some \<lparr>lf_topicId = Some 1, lf_includeInactive = None\<rparr>" sample_store alice]
  by (simp add: sample_defs)

text \<open>
  At \<open>topicId = 0\<close> the handler applies no topic filter, since \<open>input?.topicId\<close> is
  falsy there: facts of topic 2 and of no topic are listed.
\<close>

lemma listFacts_topic_zero_unfiltered:
  "listFacts sample_store (signed_in bob) (Some \<lparr>lf_topicId = Some 0, lf_includeInactive = None\<rparr>)
     = Inr [rome_fact, cell_fact]"
  by (simp add: listFacts_def requireUser_def locals_user_def falsy_text_def truthy_num_def
      sample_defs)

section \<open>References to topics\<close>

text \<open>
  Claim C2 at \<open>topicId = 0\<close>. For a signed-in caller and a store with no topic of id
  0, \<open>createFact\<close> and \<open>createRequest\<close> with \<open>topicId = 0\<close> do not fail with
  \<open>NOT_FOUND\<close>: \<open>if (input.topicId)\<close> is false for 0, so the lookup of the topic is
  skipped and the handler goes on to the insert, which the store rejects for its
  reference to topic 0. The call fails with the store's error and writes nothing.
\<close>

theorem create_with_topic_zero_not_not_found:
  assumes auth: "locals_user ctx = Some u"
    and fact_topic: "cf_topicId fi = Some 0"
    and request_topic: "cr_topicId ri = Some 0"
    and missing: "\<not> topic_exists db 0"
  shows "createFact db now ctx fi = (Inl foreign_key_failed, db)
    \<and> createRequest db now ctx ri = (Inl foreign_key_failed, db)
    \<and> error_code foreign_key_failed \<noteq> Some NOT_FOUND"
  using fact_topic request_topic missing
  by (simp add: createFact_def createRequest_def requireUser_some [OF auth] truthy_num_def
      insert_row_def topic_reference_holds_def foreign_key_failed_def)

theorem create_with_topic_zero_witness:
  "createFact empty_store 200 (signed_in alice)
       \<lparr>cf_topicId = Some 0, cf_content = ''The sun is a star'', cf_difficulty = None,
        cf_source = None, cf_sourceMeta = None, cf_origin = None, cf_isActive = None\<rparr>
     = (Inl (StoreError ''FOREIGN KEY constraint failed''), empty_store)
   \<and> createRequest empty_store 200 (signed_in alice)
       \<lparr>cr_topicId = Some 0, cr_prompt = Some ''five facts'', cr_input = None, cr_output = None,
        cr_status = None\<rparr>
     = (Inl (StoreError ''FOREIGN KEY constraint failed''), empty_store)"
proof -
  have missing: "\<not> topic_exists empty_store 0"
    by (simp add: topic_exists_def select_one_def empty_store_def)
  from create_with_topic_zero_not_not_found [where now = 200 and u = alice
      and fi = "\<lparr>cf_topicId = Some 0, cf_content = ''The sun is a star'', cf_difficulty = None,
        cf_source = None, cf_sourceMeta = None, cf_origin = None, cf_isActive = None\<rparr>"
      and ri = "\<lparr>cr_topicId = Some 0, cr_prompt = Some ''five facts'', cr_input = None,
        cr_output = None, cr_status = None\<rparr>",
      OF locals_user_signed_in _ _ missing]
  show ?thesis
    by (simp add: foreign_key_failed_def)
qed

text \<open>
  Away from 0 the three handlers do reject a missing topic before any write, and
  \<open>updateFact\<close>, which tests \<open>typeof rest.topicId !== "undefined"\<close>, rejects it at 0 too.
\<close>

lemma createFact_missing_topic:
  assumes "locals_user ctx = Some u" and "cf_topicId inp = Some i" and "i \<noteq> 0"
    and "\<not> topic_exists db i"
  shows "createFact db now ctx inp = (Inl (ActionError NOT_FOUND ''Topic not found.''), db)"
  using assms(2-4)
  by (simp add: createFact_def requireUser_some [OF assms(1)] truthy_num_def)

lemma createRequest_missing_topic:
  assumes "locals_user ctx = Some u" and "cr_topicId inp = Some i" and "i \<noteq> 0"
    and "\<not> topic_exists db i"
  shows "createRequest db now ctx inp = (Inl (ActionError NOT_FOUND ''Topic not found.''), db)"
  using assms(2-4)
  by (simp add: createRequest_def requireUser_some [OF assms(1)] truthy_num_def)

lemma updateFact_missing_topic:
  assumes "locals_user ctx = Some u" and "uf_topicId inp = Some i"
    and "\<not> topic_exists db i"
  shows "\<exists>msg. updateFact db now ctx inp = (Inl (ActionError NOT_FOUND msg), db)"
  using assms(2-3)
  by (simp add: updateFact_def requireUser_some [OF assms(1)] split: option.split)

section \<open>Logging requests\<close>

text \<open>
  Claim C9. When a signed-in caller's \<open>createRequest\<close> without \<open>status\<close> succeeds, it
  has appended one row to the requests, and nothing else has changed; the row has
  status \<open>pending\<close>, the caller's id as \<open>userId\<close> and \<open>now\<close> as \<open>createdAt\<close>.
\<close>

theorem createRequest_default_status:
  assumes auth: "locals_user ctx = Some u"
    and omitted: "cr_status inp = None"
    and success: "createRequest db now ctx inp = (Inr res, db')"
  shows "\<exists>r. res = Some r \<and> db' = db\<lparr>FactRequests := FactRequests db @ [r]\<rparr>
     \<and> r_status r = Pending \<and> r_userId r = Some (u_id u) \<and> r_createdAt r = now"
  using success omitted
  by (auto simp: createRequest_def requireUser_some [OF auth] insert_row_def split: if_splits)

theorem createRequest_default_status_witness:
  "createRequest sample_store 200 (signed_in bob)
       \<lparr>cr_topicId = Some 2, cr_prompt = Some ''five facts'',
        cr_input = Some (JObj [(''count'', JNum 5)]), cr_output = None, cr_status = None\<rparr>
     = (Inr (Some history_request), sample_store\<lparr>FactRequests := [history_request]\<rparr>)
   \<and> r_status history_request = Pending
   \<and> r_userId history_request = Some (u_id bob)
   \<and> r_createdAt history_request = 200"
proof -
  have success: "createRequest sample_store 200 (signed_in bob)
       \<lparr>cr_topicId = Some 2, cr_prompt = Some ''five facts'',
        cr_input = Some (JObj [(''count'', JNum 5)]), cr_output = None, cr_status = None\<rparr>
     = (Inr (Some history_request), sample_store\<lparr>FactRequests := [history_request]\<rparr>)"
    by (simp add: createRequest_def requireUser_def locals_user_def truthy_num_def
        topic_exists_def select_one_def insert_row_def topic_reference_holds_def next_id_def
        history_request_def sample_defs)
  from createRequest_default_status [OF locals_user_signed_in _ success] success
  show ?thesis by simp
qed

text \<open>Such a call does succeed whenever its \<open>topicId\<close> is absent or that of a topic.\<close>

lemma createRequest_succeeds:
  assumes "locals_user ctx = Some u"
    and "case cr_topicId inp of None \<Rightarrow> True | Some i \<Rightarrow> topic_exists db i"
  shows "\<exists>r db'. createRequest db now ctx inp = (Inr (Some r), db')"
  using assms(2)
  by (simp add: createRequest_def requireUser_some [OF assms(1)] insert_row_def
      topic_reference_holds_def split: option.splits)

section \<open>User state: which facts it may refer to\<close>

lemma fact_found:
  assumes "f \<in> set (Facts db)"
  shows "\<exists>g. select_one (\<lambda>r. f_id r = f_id f) (Facts db) = Some g"
proof -
  from assms have "select_one (\<lambda>r. f_id r = f_id f) (Facts db) \<noteq> None"
    by (auto simp: select_one_none_iff)
  then show ?thesis by blast
qed

lemma state_insert:
  assumes "locals_user ctx = Some u"
    and "select_one (\<lambda>r. f_id r = us_factId inp) (Facts db) = Some g"
    and "select_one (state_of (us_factId inp) u) (UserFactState db) = None"
  shows "updateUserFactState db now ctx inp =
    (Inr (Some (baseValues inp u now None (fresh_state (next_id (map s_id (UserFactState db)))))),
     db\<lparr>UserFactState := UserFactState db
          @ [baseValues inp u now None (fresh_state (next_id (map s_id (UserFactState db))))]\<rparr>)"
  using assms(2,3)
  by (simp add: updateUserFactState_def requireUser_some [OF assms(1)] insert_row_def
      fact_reference_holds_def)

lemma state_update:
  assumes "locals_user ctx = Some u"
    and "select_one (\<lambda>r. f_id r = us_factId inp) (Facts db) = Some g"
    and "select_one (state_of (us_factId inp) u) (UserFactState db) = Some e"
  shows "updateUserFactState db now ctx inp =
    (Inr (first (map (baseValues inp u now (Some e))
                   (filter (\<lambda>r. s_id r = s_id e) (UserFactState db)))),
     db\<lparr>UserFactState := map (\<lambda>r. if s_id r = s_id e then baseValues inp u now (Some e) r else r)
                             (UserFactState db)\<rparr>)"
  using assms(2,3)
  by (simp add: updateUserFactState_def requireUser_some [OF assms(1)] update_where_def)

lemma baseValues_key:
  "s_userId (baseValues inp u now ex r) = u_id u"
  "s_factId (baseValues inp u now ex r) = us_factId inp"
  "s_id (baseValues inp u now ex r) = s_id r"
  by (simp_all add: baseValues_def)

text \<open>
  Claim C10. For a signed-in caller and any fact of the store, whoever owns it and
  whether or not it is active, \<open>updateUserFactState\<close> on that fact's id succeeds: it
  returns a state row for the caller and the fact, and the store holds that row.
\<close>

theorem updateUserFactState_any_existing_fact:
  assumes auth: "locals_user ctx = Some u"
    and row: "f \<in> set (Facts db)"
    and target: "us_factId inp = f_id f"
  shows "\<exists>r db'. updateUserFactState db now ctx inp = (Inr (Some r), db')
     \<and> r \<in> set (UserFactState db') \<and> s_userId r = u_id u \<and> s_factId r = f_id f"
proof -
  from fact_found [OF row] target
  obtain g where g: "select_one (\<lambda>r. f_id r = us_factId inp) (Facts db) = Some g"
    by auto
  show ?thesis
  proof (cases "select_one (state_of (us_factId inp) u) (UserFactState db)")
    case None
    show ?thesis
      unfolding state_insert [OF auth g None]
      by (simp add: baseValues_key target)
  next
    case (Some e)
    then have "e \<in> set (UserFactState db)"
      by (simp add: select_one_some_mem)
    from update_returns_row [OF this, of "\<lambda>r. s_id r = s_id e" "baseValues inp u now (Some e)"]
    obtain x where
      "first (map (baseValues inp u now (Some e))
         (filter (\<lambda>r. s_id r = s_id e) (UserFactState db)))
       = Some (baseValues inp u now (Some e) x)"
      "baseValues inp u now (Some e) x
         \<in> set (map (\<lambda>r. if s_id r = s_id e then baseValues inp u now (Some e) r else r)
                  (UserFactState db))"
      by auto
    then show ?thesis
      unfolding state_update [OF auth g Some]
      by (simp add: baseValues_key target)
  qed
qed

theorem updateUserFactState_any_existing_fact_witness:
  "f_ownerId sun_fact = Some ''alice'' \<and> \<not> f_isActive sun_fact
   \<and> (\<exists>r db'. updateUserFactState sample_store 200 (signed_in bob)
        \<lparr>us_factId = 1, us_seen = Some True, us_seenAt = None, us_isFavorite = None,
         us_reaction = Some Love\<rparr> = (Inr (Some r), db')
      \<and> r \<in> set (UserFactState db') \<and> s_userId r = u_id bob \<and> s_factId r = f_id sun_fact)"
proof -
  have "sun_fact \<in> set (Facts sample_store)"
    by (simp add: sample_store_def)
  from updateUserFactState_any_existing_fact [OF locals_user_signed_in this, of _ 200]
  show ?thesis
    by (simp add: sun_fact_def)
qed

section \<open>Partial updates by the owner\<close>

lemma other_rows_differ:
  assumes "distinct (map k (pre @ x # post))" and "y \<in> set pre \<union> set post"
  shows "k y \<noteq> k x"
  using assms by (auto simp: image_iff)

lemma filter_unique_key:
  assumes pk: "distinct (map k (pre @ x # post))" and "P x" and key: "\<And>y. P y \<Longrightarrow> k y = k x"
  shows "filter P (pre @ x # post) = [x]"
proof -
  have "\<not> P y" if "y \<in> set pre \<union> set post" for y
    using other_rows_differ [OF pk that] key by blast
  then have "filter P pre = []" and "filter P post = []"
    by (simp_all add: filter_empty_conv)
  with \<open>P x\<close> show ?thesis by simp
qed

lemma update_unique_key:
  assumes pk: "distinct (map k (pre @ x # post))" and "P x" and key: "\<And>y. P y \<Longrightarrow> k y = k x"
  shows "map (\<lambda>r. if P r then f r else r) (pre @ x # post) = pre @ f x # post"
proof -
  have "\<not> P y" if "y \<in> set pre \<union> set post" for y
    using other_rows_differ [OF pk that] key by blast
  then have "map (\<lambda>r. if P r then f r else r) pre = pre"
    and "map (\<lambda>r. if P r then f r else r) post = post"
    by (simp_all add: map_idI)
  with \<open>P x\<close> show ?thesis by simp
qed

lemma updateTopic_owner:
  assumes auth: "locals_user ctx = Some u"
    and pk: "distinct (map t_id (FactTopics db))"
    and rows: "FactTopics db = pre @ t # post"
    and owner: "t_ownerId t = Some (u_id u)"
    and target: "ut_id ti = t_id t"
  shows "updateTopic db now ctx ti =
    (if topic_updateData_empty ti then (Inr (Some t), db)
     else (Inr (Some (topic_set ti now t)), db\<lparr>FactTopics := pre @ topic_set ti now t # post\<rparr>))"
proof -
  have mine: "owned_topic (ut_id ti) u t"
    by (simp add: owned_topic_def owner target)
  have key: "t_id y = t_id t" if "owned_topic (ut_id ti) u y" for y
    using that by (simp add: owned_topic_def target)
  from pk have pk': "distinct (map t_id (pre @ t # post))" by (simp only: rows)
  have sel: "filter (owned_topic (ut_id ti) u) (FactTopics db) = [t]"
    unfolding rows using pk' mine key by (rule filter_unique_key)
  have upd: "map (\<lambda>r. if owned_topic (ut_id ti) u r then topic_set ti now r else r) (FactTopics db)
      = pre @ topic_set ti now t # post"
    unfolding rows using pk' mine key by (rule update_unique_key)
  show ?thesis
    by (simp add: updateTopic_def requireUser_some [OF auth] select_one_def update_where_def sel upd)
qed

lemma updateFact_owner:
  assumes auth: "locals_user ctx = Some u"
    and pk: "distinct (map f_id (Facts db))"
    and rows: "Facts db = pre @ f # post"
    and owner: "f_ownerId f = Some (u_id u)"
    and target: "uf_id fi = f_id f"
    and topic: "case uf_topicId fi of None \<Rightarrow> True | Some i \<Rightarrow> topic_exists db i"
  shows "updateFact db now ctx fi =
    (if fact_updateData_empty fi then (Inr (Some f), db)
     else (Inr (Some (fact_set fi now f)), db\<lparr>Facts := pre @ fact_set fi now f # post\<rparr>))"
proof -
  have mine: "owned_fact (uf_id fi) u f"
    by (simp add: owned_fact_def owner target)
  have key: "f_id y = f_id f" if "owned_fact (uf_id fi) u y" for y
    using that by (simp add: owned_fact_def target)
  from pk have pk': "distinct (map f_id (pre @ f # post))" by (simp only: rows)
  have sel: "filter (owned_fact (uf_id fi) u) (Facts db) = [f]"
    unfolding rows using pk' mine key by (rule filter_unique_key)
  have upd: "map (\<lambda>r. if owned_fact (uf_id fi) u r then fact_set fi now r else r) (Facts db)
      = pre @ fact_set fi now f # post"
    unfolding rows using pk' mine key by (rule update_unique_key)
  have ok: "\<not> (case uf_topicId fi of None \<Rightarrow> False | Some i \<Rightarrow> \<not> topic_exists db i)"
    using topic by (simp split: option.splits)
  show ?thesis
    by (simp add: updateFact_def requireUser_some [OF auth] select_one_def update_where_def sel upd ok)
qed


text \<open>
  Claim C5. Let the primary keys be unique, and let a signed-in caller update a topic
  or a fact the caller owns (for a fact, with a \<open>topicId\<close> that exists if one is
  provided). With no field provided the handler returns the row as it is and leaves
  the store as it is, \<open>updatedAt\<close> included. Otherwise it returns the updated row and
  changes that one row of the table, in place: each provided field has the provided
  value, each omitted field, \<open>id\<close>, \<open>ownerId\<close> and \<open>createdAt\<close> keep their values, and
  \<open>updatedAt\<close> is \<open>now\<close>.
\<close>

theorem partial_update_keeps_omitted_fields:
  assumes auth: "locals_user ctx = Some u"
  shows
    "(distinct (map t_id (FactTopics db)) \<and> FactTopics db = tpre @ t # tpost
        \<and> t_ownerId t = Some (u_id u) \<and> ut_id ti = t_id t
      \<longrightarrow> (if topic_updateData_empty ti
           then updateTopic db now ctx ti = (Inr (Some t), db)
           else (\<exists>t'. updateTopic db now ctx ti
                    = (Inr (Some t'), db\<lparr>FactTopics := tpre @ t' # tpost\<rparr>)
                \<and> t_updatedAt t' = now
                \<and> t_name t' = (case ut_name ti of None \<Rightarrow> t_name t | Some v \<Rightarrow> v)
                \<and> t_description t'
                    = (case ut_description ti of None \<Rightarrow> t_description t | Some v \<Rightarrow> Some v)
                \<and> t_slug t' = (case ut_slug ti of None \<Rightarrow> t_slug t | Some v \<Rightarrow> Some v)
                \<and> t_isActive t' = (case ut_isActive ti of None \<Rightarrow> t_isActive t | Some v \<Rightarrow> v)
                \<and> t_id t' = t_id t \<and> t_ownerId t' = t_ownerId t
                \<and> t_createdAt t' = t_createdAt t)))
   \<and> (distinct (map f_id (Facts db)) \<and> Facts db = fpre @ f # fpost
        \<and> f_ownerId f = Some (u_id u) \<and> uf_id fi = f_id f
        \<and> (case uf_topicId fi of None \<Rightarrow> True | Some i \<Rightarrow> topic_exists db i)
      \<longrightarrow> (if fact_updateData_empty fi
           then updateFact db now ctx fi = (Inr (Some f), db)
           else (\<exists>f'. updateFact db now ctx fi
                    = (Inr (Some f'), db\<lparr>Facts := fpre @ f' # fpost\<rparr>)
                \<and> f_updatedAt f' = now
                \<and> f_topicId f' = (case uf_topicId fi of None \<Rightarrow> f_topicId f | Some v \<Rightarrow> Some v)
                \<and> f_content f' = (case uf_content fi of None \<Rightarrow> f_content f | Some v \<Rightarrow> v)
                \<and> f_difficulty f'
                    = (case uf_difficulty fi of None \<Rightarrow> f_difficulty f | Some v \<Rightarrow> v)
                \<and> f_source f' = (case uf_source fi of None \<Rightarrow> f_source f | Some v \<Rightarrow> Some v)
                \<and> f_sourceMeta f'
                    = (case uf_sourceMeta fi of None \<Rightarrow> f_sourceMeta f | Some v \<Rightarrow> Some v)
                \<and> f_origin f' = (case uf_origin fi of None \<Rightarrow> f_origin f | Some v \<Rightarrow> v)
                \<and> f_isActive f' = (case uf_isActive fi of None \<Rightarrow> f_isActive f | Some v \<Rightarrow> v)
                \<and> f_id f' = f_id f \<and> f_ownerId f' = f_ownerId f
                \<and> f_createdAt f' = f_createdAt f)))"
    (is "(?topic_owned \<longrightarrow> ?topic_updated) \<and> (?fact_owned \<longrightarrow> ?fact_updated)")
proof (intro conjI impI)
  assume ?topic_owned
  then have eq: "updateTopic db now ctx ti =
    (if topic_updateData_empty ti then (Inr (Some t), db)
     else (Inr (Some (topic_set ti now t)), db\<lparr>FactTopics := tpre @ topic_set ti now t # tpost\<rparr>))"
    using updateTopic_owner [OF auth] by blast
  show ?topic_updated
  proof (cases "topic_updateData_empty ti")
    case True
    with eq show ?thesis by simp
  next
    case False
    with eq show ?thesis
      by (auto simp: topic_set_def)
  qed
next
  assume ?fact_owned
  then have eq: "updateFact db now ctx fi =
    (if fact_updateData_empty fi then (Inr (Some f), db)
     else (Inr (Some (fact_set fi now f)), db\<lparr>Facts := fpre @ fact_set fi now f # fpost\<rparr>))"
    using updateFact_owner [OF auth] by blast
  show ?fact_updated
  proof (cases "fact_updateData_empty fi")
    case True
    with eq show ?thesis by simp
  next
    case False
    with eq show ?thesis
      by (auto simp: fact_set_def)
  qed
qed

theorem partial_update_witness:
  "(\<exists>t'. updateTopic sample_store 200 (signed_in alice)
          \<lparr>ut_id = 1, ut_name = Some ''Astronomy'', ut_description = None, ut_slug = None,
           ut_isActive = None\<rparr>
        = (Inr (Some t'), sample_store\<lparr>FactTopics := [t', shared_topic, retired_topic]\<rparr>)
      \<and> t_name t' = ''Astronomy'' \<and> t_updatedAt t' = 200 \<and> t_slug t' = Some ''space''
      \<and> t_isActive t' \<and> t_createdAt t' = 100 \<and> t_ownerId t' = Some ''alice'')
   \<and> updateTopic sample_store 200 (signed_in alice)
          \<lparr>ut_id = 1, ut_name = None, ut_description = None, ut_slug = None, ut_isActive = None\<rparr>
        = (Inr (Some space_topic), sample_store)
   \<and> (\<exists>f'. updateFact sample_store 200 (signed_in bob)
          \<lparr>uf_id = 3, uf_topicId = Some 2, uf_content = None, uf_difficulty = None,
           uf_source = None, uf_sourceMeta = None, uf_origin = None, uf_isActive = Some False\<rparr>
        = (Inr (Some f'), sample_store\<lparr>Facts := [sun_fact, rome_fact, f']\<rparr>)
      \<and> f_topicId f' = Some 2 \<and> \<not> f_isActive f' \<and> f_updatedAt f' = 200
      \<and> f_content f' = ''Cells divide'' \<and> f_createdAt f' = 160)"
proof -
  have topics: "distinct (map t_id (FactTopics sample_store))
      \<and> FactTopics sample_store = [] @ space_topic # [shared_topic, retired_topic]
      \<and> t_ownerId space_topic = Some (u_id alice)
      \<and> ut_id \<lparr>ut_id = 1, ut_name = n, ut_description = None, ut_slug = None,
           ut_isActive = None\<rparr> = t_id space_topic" for n
    by (simp add: sample_defs)
  have facts: "distinct (map f_id (Facts sample_store))
      \<and> Facts sample_store = [sun_fact, rome_fact] @ cell_fact # []
      \<and> f_ownerId cell_fact = Some (u_id bob)
      \<and> uf_id \<lparr>uf_id = 3, uf_topicId = Some 2, uf_content = None, uf_difficulty = None,
           uf_source = None, uf_sourceMeta = None, uf_origin = None, uf_isActive = Some False\<rparr>
          = f_id cell_fact
      \<and> (case uf_topicId \<lparr>uf_id = 3, uf_topicId = Some 2, uf_content = None,
           uf_difficulty = None, uf_source = None, uf_sourceMeta = None, uf_origin = None,
           uf_isActive = Some False\<rparr> of None \<Rightarrow> True | Some i \<Rightarrow> topic_exists sample_store i)"
    by (simp add: topic_exists_def select_one_def sample_defs)
  note topic_part = partial_update_keeps_omitted_fields [OF locals_user_signed_in, THEN conjunct1, THEN mp, OF topics, of _ 200]
  note fact_part = partial_update_keeps_omitted_fields [OF locals_user_signed_in, THEN conjunct2, THEN mp, OF facts, of 200]
  from topic_part [of "Some ''Astronomy''"] topic_part [of None] fact_part
  show ?thesis
    by (auto simp: topic_updateData_empty_def fact_updateData_empty_def space_topic_def
        cell_fact_def)
qed

section \<open>User state: merge and upsert\<close>

lemma foldr_max_upper: "i \<in> set ids \<Longrightarrow> i \<le> foldr max ids (0::int)"
  by (induction ids) auto

lemma next_id_fresh: "next_id ids \<notin> set ids"
proof
  assume "next_id ids \<in> set ids"
  then have "next_id ids \<le> foldr max ids 0" by (rule foldr_max_upper)
  then show False by (simp add: next_id_def)
qed

lemma select_one_first:
  assumes "\<forall>r\<in>set pre. \<not> P r" and "P e"
  shows "select_one P (pre @ e # post) = Some e"
  using assms by (simp add: select_one_def)

lemma select_one_split:
  assumes "select_one P rows = Some e"
  shows "\<exists>pre post. rows = pre @ e # post \<and> (\<forall>r\<in>set pre. \<not> P r) \<and> P e"
proof -
  from assms obtain rest where "filter P rows = e # rest"
    by (cases "filter P rows") (simp_all add: select_one_def)
  then show ?thesis
    by (auto simp: filter_eq_Cons_iff)
qed

lemma state_new:
  assumes auth: "locals_user ctx = Some u"
    and row: "f \<in> set (Facts db)"
    and target: "us_factId inp = f_id f"
    and none: "\<forall>r\<in>set (UserFactState db). \<not> state_of (us_factId inp) u r"
  shows "updateUserFactState db now ctx inp =
    (Inr (Some (baseValues inp u now None (fresh_state (next_id (map s_id (UserFactState db)))))),
     db\<lparr>UserFactState := UserFactState db
          @ [baseValues inp u now None (fresh_state (next_id (map s_id (UserFactState db))))]\<rparr>)"
proof -
  from fact_found [OF row] target
  obtain g where g: "select_one (\<lambda>r. f_id r = us_factId inp) (Facts db) = Some g"
    by auto
  from none have "select_one (state_of (us_factId inp) u) (UserFactState db) = None"
    by (simp add: select_one_none_iff)
  with auth g show ?thesis by (rule state_insert)
qed

lemma state_existing:
  assumes auth: "locals_user ctx = Some u"
    and row: "f \<in> set (Facts db)"
    and target: "us_factId inp = f_id f"
    and pk: "distinct (map s_id (UserFactState db))"
    and rows: "UserFactState db = pre @ e # post"
    and mine: "state_of (us_factId inp) u e"
    and earlier: "\<forall>r\<in>set pre. \<not> state_of (us_factId inp) u r"
  shows "updateUserFactState db now ctx inp =
    (Inr (Some (baseValues inp u now (Some e) e)),
     db\<lparr>UserFactState := pre @ baseValues inp u now (Some e) e # post\<rparr>)"
proof -
  from fact_found [OF row] target
  obtain g where g: "select_one (\<lambda>r. f_id r = us_factId inp) (Facts db) = Some g"
    by auto
  have sel: "select_one (state_of (us_factId inp) u) (UserFactState db) = Some e"
    unfolding rows using earlier mine by (rule select_one_first)
  from pk have pk': "distinct (map s_id (pre @ e # post))" by (simp only: rows)
  have one: "filter (\<lambda>r. s_id r = s_id e) (UserFactState db) = [e]"
    unfolding rows using pk' by (rule filter_unique_key) simp_all
  have upd: "map (\<lambda>r. if s_id r = s_id e then baseValues inp u now (Some e) r else r)
       (UserFactState db) = pre @ baseValues inp u now (Some e) e # post"
    unfolding rows using pk' by (rule update_unique_key) simp_all
  show ?thesis
    unfolding state_update [OF auth g sel] one upd by simp
qed

lemma baseValues_state_of: "state_of (us_factId inp) u (baseValues inp u now ex r)"
  by (simp add: state_of_def baseValues_key)

lemma baseValues_again:
  "baseValues inp u now2 (Some (baseValues inp u now1 ex r)) (baseValues inp u now1 ex r)
   = (baseValues inp u now1 ex r)\<lparr>s_updatedAt := now2\<rparr>"
  by (simp add: baseValues_def split: option.splits)

lemma state_call_shape:
  assumes auth: "locals_user ctx = Some u"
    and row: "f \<in> set (Facts db)"
    and target: "us_factId inp = f_id f"
    and pk: "distinct (map s_id (UserFactState db))"
  shows "\<exists>pre post ex r0.
      updateUserFactState db now ctx inp
        = (Inr (Some (baseValues inp u now ex r0)),
           db\<lparr>UserFactState := pre @ baseValues inp u now ex r0 # post\<rparr>)
    \<and> distinct (map s_id (pre @ baseValues inp u now ex r0 # post))
    \<and> (\<forall>x\<in>set pre. \<not> state_of (us_factId inp) u x)"
proof (cases "select_one (state_of (us_factId inp) u) (UserFactState db)")
  case None
  then have none: "\<forall>r\<in>set (UserFactState db). \<not> state_of (us_factId inp) u r"
    by (simp add: select_one_none_iff)
  have "distinct (map s_id (UserFactState db
      @ baseValues inp u now None (fresh_state (next_id (map s_id (UserFactState db)))) # []))"
    using pk next_id_fresh [of "map s_id (UserFactState db)"]
    by (simp add: baseValues_key fresh_state_def)
  with state_new [OF auth row target none, of now] none show ?thesis
    by (metis append_Cons append_Nil)
next
  case (Some e)
  from select_one_split [OF this]
  obtain pre post where rows: "UserFactState db = pre @ e # post"
    and earlier: "\<forall>r\<in>set pre. \<not> state_of (us_factId inp) u r"
    and mine: "state_of (us_factId inp) u e"
    by blast
  have "distinct (map s_id (pre @ baseValues inp u now (Some e) e # post))"
    using pk by (simp add: rows baseValues_key)
  with state_existing [OF auth row target pk rows mine earlier, of now] earlier show ?thesis
    by blast
qed

text \<open>
  Claim C4. Let the primary key of the state rows be unique and let a signed-in caller
  name a fact of the store. If the caller has no state row for the fact,
  \<open>updateUserFactState\<close> appends one row: each field is the provided value, else the
  default (\<open>seen\<close> and \<open>isFavorite\<close> false, \<open>reaction\<close> none, \<open>seenAt\<close> NULL), and
  \<open>createdAt\<close> and \<open>updatedAt\<close> are \<open>now\<close>. If the caller has one, its first such row is
  replaced in place: each field is the provided value, else the row's value; \<open>id\<close> and
  \<open>createdAt\<close> are kept and \<open>updatedAt\<close> is \<open>now\<close>. And a call with \<open>seen = true\<close>
  followed by a call with \<open>isFavorite = true\<close> both succeed, and the row the store then
  holds for the caller and the fact is seen and favorite.
\<close>

theorem updateUserFactState_merges:
  assumes auth: "locals_user ctx = Some u"
    and row: "f \<in> set (Facts db)"
    and pk: "distinct (map s_id (UserFactState db))"
  shows
    "(us_factId inp = f_id f \<and> (\<forall>r\<in>set (UserFactState db). \<not> state_of (f_id f) u r)
      \<longrightarrow> (\<exists>r. updateUserFactState db now ctx inp
                  = (Inr (Some r), db\<lparr>UserFactState := UserFactState db @ [r]\<rparr>)
              \<and> s_userId r = u_id u \<and> s_factId r = f_id f
              \<and> s_seen r = (case us_seen inp of Some v \<Rightarrow> v | None \<Rightarrow> False)
              \<and> s_seenAt r = us_seenAt inp
              \<and> s_isFavorite r = (case us_isFavorite inp of Some v \<Rightarrow> v | None \<Rightarrow> False)
              \<and> s_reaction r = (case us_reaction inp of Some v \<Rightarrow> v | None \<Rightarrow> NoReaction)
              \<and> s_createdAt r = now \<and> s_updatedAt r = now))
   \<and> (us_factId inp = f_id f \<and> UserFactState db = pre @ e # post
        \<and> state_of (f_id f) u e \<and> (\<forall>r\<in>set pre. \<not> state_of (f_id f) u r)
      \<longrightarrow> (\<exists>r. updateUserFactState db now ctx inp
                  = (Inr (Some r), db\<lparr>UserFactState := pre @ r # post\<rparr>)
              \<and> s_id r = s_id e \<and> s_userId r = u_id u \<and> s_factId r = f_id f
              \<and> s_seen r = (case us_seen inp of Some v \<Rightarrow> v | None \<Rightarrow> s_seen e)
              \<and> s_seenAt r = (case us_seenAt inp of Some v \<Rightarrow> Some v | None \<Rightarrow> s_seenAt e)
              \<and> s_isFavorite r = (case us_isFavorite inp of Some v \<Rightarrow> v | None \<Rightarrow> s_isFavorite e)
              \<and> s_reaction r = (case us_reaction inp of Some v \<Rightarrow> v | None \<Rightarrow> s_reaction e)
              \<and> s_createdAt r = s_createdAt e \<and> s_updatedAt r = now))
   \<and> (\<exists>r1 db1 r2 db2.
          updateUserFactState db now ctx
            \<lparr>us_factId = f_id f, us_seen = Some True, us_seenAt = None, us_isFavorite = None,
             us_reaction = None\<rparr> = (Inr (Some r1), db1)
        \<and> updateUserFactState db1 later ctx
            \<lparr>us_factId = f_id f, us_seen = None, us_seenAt = None, us_isFavorite = Some True,
             us_reaction = None\<rparr> = (Inr (Some r2), db2)
        \<and> select_one (state_of (f_id f) u) (UserFactState db2) = Some r2
        \<and> s_seen r2 \<and> s_isFavorite r2)"
    (is "(?absent \<longrightarrow> ?inserted) \<and> (?present \<longrightarrow> ?updated) \<and> ?scenario")
proof (intro conjI impI)
  assume ?absent
  then have target: "us_factId inp = f_id f"
    and none: "\<forall>r\<in>set (UserFactState db). \<not> state_of (us_factId inp) u r"
    by simp_all
  from state_new [OF auth row target none, of now] show ?inserted
    by (simp add: baseValues_def fresh_state_def target split: option.split)
next
  assume ?present
  then have target: "us_factId inp = f_id f"
    and rows: "UserFactState db = pre @ e # post"
    and mine: "state_of (us_factId inp) u e"
    and earlier: "\<forall>r\<in>set pre. \<not> state_of (us_factId inp) u r"
    by simp_all
  from state_existing [OF auth row target pk rows mine earlier, of now] show ?updated
    by (simp add: baseValues_def target split: option.split)
next
  define seen where "seen = \<lparr>us_factId = f_id f, us_seen = Some True, us_seenAt = None,
     us_isFavorite = None, us_reaction = None\<rparr>"
  define fav where "fav = \<lparr>us_factId = f_id f, us_seen = None, us_seenAt = None,
     us_isFavorite = Some True, us_reaction = None\<rparr>"
  have t1: "us_factId seen = f_id f" and t2: "us_factId fav = f_id f"
    by (simp_all add: seen_def fav_def)
  from state_call_shape [OF auth row t1 pk, of now]
  obtain pre post ex r0 where
    c1: "updateUserFactState db now ctx seen
        = (Inr (Some (baseValues seen u now ex r0)),
           db\<lparr>UserFactState := pre @ baseValues seen u now ex r0 # post\<rparr>)"
    and pk1: "distinct (map s_id (pre @ baseValues seen u now ex r0 # post))"
    and earlier: "\<forall>x\<in>set pre. \<not> state_of (us_factId seen) u x"
    by blast
  define r1 where "r1 = baseValues seen u now ex r0"
  define db1 where "db1 = db\<lparr>UserFactState := pre @ r1 # post\<rparr>"
  define r2 where "r2 = baseValues fav u later (Some r1) r1"
  have seen1: "s_seen r1"
    by (simp add: r1_def baseValues_def seen_def)
  have row1: "f \<in> set (Facts db1)" using row by (simp add: db1_def)
  have pk1': "distinct (map s_id (UserFactState db1))"
    using pk1 by (simp add: db1_def r1_def)
  have rows1: "UserFactState db1 = pre @ r1 # post" by (simp add: db1_def)
  have mine1: "state_of (us_factId fav) u r1"
    using baseValues_state_of [of seen u now ex r0] by (simp add: r1_def t1 t2)
  from earlier have earlier': "\<forall>x\<in>set pre. \<not> state_of (us_factId fav) u x"
    by (simp add: t1 t2)
  have c2: "updateUserFactState db1 later ctx fav
      = (Inr (Some r2), db1\<lparr>UserFactState := pre @ r2 # post\<rparr>)"
    unfolding r2_def by (rule state_existing [OF auth row1 t2 pk1' rows1 mine1 earlier'])
  have "state_of (us_factId fav) u r2"
    unfolding r2_def by (rule baseValues_state_of)
  with earlier' have sel: "select_one (state_of (f_id f) u) (pre @ r2 # post) = Some r2"
    unfolding t2 by (simp add: select_one_first)
  have both: "s_seen r2 \<and> s_isFavorite r2"
    using seen1 by (simp add: r2_def baseValues_def fav_def)
  from c1 c2 sel both show ?scenario
    unfolding seen_def [symmetric] fav_def [symmetric]
    by (auto simp: r1_def db1_def)
qed


theorem updateUserFactState_merges_witness:
  "(\<exists>r. updateUserFactState sample_store 200 (signed_in bob)
          \<lparr>us_factId = 1, us_seen = None, us_seenAt = None, us_isFavorite = None,
           us_reaction = Some Love\<rparr>
        = (Inr (Some r), sample_store\<lparr>UserFactState := [r]\<rparr>)
      \<and> s_userId r = ''bob'' \<and> s_factId r = 1 \<and> \<not> s_seen r \<and> s_seenAt r = None
      \<and> \<not> s_isFavorite r \<and> s_reaction r = Love \<and> s_createdAt r = 200 \<and> s_updatedAt r = 200)
   \<and> (\<exists>r. updateUserFactState viewed_store 200 (signed_in alice)
          \<lparr>us_factId = 2, us_seen = Some True, us_seenAt = Some 190, us_isFavorite = None,
           us_reaction = None\<rparr>
        = (Inr (Some r), viewed_store\<lparr>UserFactState := [bob_rome_state, r]\<rparr>)
      \<and> s_id r = 2 \<and> s_userId r = ''alice'' \<and> s_factId r = 2 \<and> s_seen r
      \<and> s_seenAt r = Some 190 \<and> s_isFavorite r \<and> s_reaction r = NoReaction
      \<and> s_createdAt r = 180 \<and> s_updatedAt r = 200)
   \<and> (\<exists>r1 db1 r2 db2.
          updateUserFactState sample_store 200 (signed_in bob)
            \<lparr>us_factId = 1, us_seen = Some True, us_seenAt = None, us_isFavorite = None,
             us_reaction = None\<rparr> = (Inr (Some r1), db1)
        \<and> updateUserFactState db1 300 (signed_in bob)
            \<lparr>us_factId = 1, us_seen = None, us_seenAt = None, us_isFavorite = Some True,
             us_reaction = None\<rparr> = (Inr (Some r2), db2)
        \<and> select_one (state_of 1 bob) (UserFactState db2) = Some r2
        \<and> s_seen r2 \<and> s_isFavorite r2)"
proof -
  have row1: "sun_fact \<in> set (Facts sample_store)"
    and pk1: "distinct (map s_id (UserFactState sample_store))"
    by (simp_all add: sample_store_def)
  have row2: "rome_fact \<in> set (Facts viewed_store)"
    and pk2: "distinct (map s_id (UserFactState viewed_store))"
    by (simp_all add: viewed_defs sample_store_def)
  have absent: "us_factId \<lparr>us_factId = 1, us_seen = None, us_seenAt = None,
        us_isFavorite = None, us_reaction = Some Love\<rparr> = f_id sun_fact
      \<and> (\<forall>r\<in>set (UserFactState sample_store). \<not> state_of (f_id sun_fact) bob r)"
    by (simp add: sample_store_def sun_fact_def)
  have present: "us_factId \<lparr>us_factId = 2, us_seen = Some True, us_seenAt = Some 190,
        us_isFavorite = None, us_reaction = None\<rparr> = f_id rome_fact
      \<and> UserFactState viewed_store = [bob_rome_state] @ alice_rome_state # []
      \<and> state_of (f_id rome_fact) alice alice_rome_state
      \<and> (\<forall>r\<in>set [bob_rome_state]. \<not> state_of (f_id rome_fact) alice r)"
    by (simp add: viewed_defs state_of_def rome_fact_def alice_def)
  note inserted = updateUserFactState_merges [where now = 200, OF locals_user_signed_in row1 pk1, THEN conjunct1,
      THEN mp, OF absent]
  note updated = updateUserFactState_merges [where now = 200, OF locals_user_signed_in row2 pk2, THEN conjunct2,
      THEN conjunct1, THEN mp, OF present]
  note scenario = updateUserFactState_merges [where now = 200 and later = 300, OF locals_user_signed_in row1 pk1,
      THEN conjunct2, THEN conjunct2]
  have a: "\<exists>r. updateUserFactState sample_store 200 (signed_in bob)
          \<lparr>us_factId = 1, us_seen = None, us_seenAt = None, us_isFavorite = None,
           us_reaction = Some Love\<rparr>
        = (Inr (Some r), sample_store\<lparr>UserFactState := [r]\<rparr>)
      \<and> s_userId r = ''bob'' \<and> s_factId r = 1 \<and> \<not> s_seen r \<and> s_seenAt r = None
      \<and> \<not> s_isFavorite r \<and> s_reaction r = Love \<and> s_createdAt r = 200 \<and> s_updatedAt r = 200"
    using inserted by (simp add: sample_store_def sun_fact_def bob_def)
  have b: "\<exists>r. updateUserFactState viewed_store 200 (signed_in alice)
          \<lparr>us_factId = 2, us_seen = Some True, us_seenAt = Some 190, us_isFavorite = None,
           us_reaction = None\<rparr>
        = (Inr (Some r), viewed_store\<lparr>UserFactState := [bob_rome_state, r]\<rparr>)
      \<and> s_id r = 2 \<and> s_userId r = ''alice'' \<and> s_factId r = 2 \<and> s_seen r
      \<and> s_seenAt r = Some 190 \<and> s_isFavorite r \<and> s_reaction r = NoReaction
      \<and> s_createdAt r = 180 \<and> s_updatedAt r = 200"
    using updated by (simp add: alice_rome_state_def rome_fact_def alice_def)
  have c: "\<exists>r1 db1 r2 db2.
          updateUserFactState sample_store 200 (signed_in bob)
            \<lparr>us_factId = 1, us_seen = Some True, us_seenAt = None, us_isFavorite = None,
             us_reaction = None\<rparr> = (Inr (Some r1), db1)
        \<and> updateUserFactState db1 300 (signed_in bob)
            \<lparr>us_factId = 1, us_seen = None, us_seenAt = None, us_isFavorite = Some True,
             us_reaction = None\<rparr> = (Inr (Some r2), db2)
        \<and> select_one (state_of 1 bob) (UserFactState db2) = Some r2
        \<and> s_seen r2 \<and> s_isFavorite r2"
    using scenario by (simp add: sun_fact_def)
  from a b c show ?thesis by (intro conjI)
qed

lemma baseValues_insert_fields:
  "s_seen (baseValues inp u now None r) = (case us_seen inp of Some v \<Rightarrow> v | None \<Rightarrow> False)"
  "s_seenAt (baseValues inp u now None r) = us_seenAt inp"
  "s_isFavorite (baseValues inp u now None r)
     = (case us_isFavorite inp of Some v \<Rightarrow> v | None \<Rightarrow> False)"
  "s_reaction (baseValues inp u now None r)
     = (case us_reaction inp of Some v \<Rightarrow> v | None \<Rightarrow> NoReaction)"
  "s_createdAt (baseValues inp u now None r) = now"
  "s_updatedAt (baseValues inp u now ex r) = now"
  by (simp_all add: baseValues_def split: option.split)

lemma baseValues_update_fields:
  "s_seen (baseValues inp u now (Some e) r) = (case us_seen inp of Some v \<Rightarrow> v | None \<Rightarrow> s_seen e)"
  "s_seenAt (baseValues inp u now (Some e) r)
     = (case us_seenAt inp of Some v \<Rightarrow> Some v | None \<Rightarrow> s_seenAt e)"
  "s_isFavorite (baseValues inp u now (Some e) r)
     = (case us_isFavorite inp of Some v \<Rightarrow> v | None \<Rightarrow> s_isFavorite e)"
  "s_reaction (baseValues inp u now (Some e) r)
     = (case us_reaction inp of Some v \<Rightarrow> v | None \<Rightarrow> s_reaction e)"
  "s_createdAt (baseValues inp u now (Some e) r) = s_createdAt e"
  by (simp_all add: baseValues_def split: option.split)

text \<open>
  Claim C3. Let the primary key of the state rows be unique, and let the store hold at
  most one state row for a signed-in caller and a fact of the store, as every store
  reached by calls in sequence does. Two calls of \<open>updateUserFactState\<close> in sequence
  with the same input both succeed, and the store then holds exactly one row for the
  caller and the fact, the row the second call returns; the rows of other users and
  facts are as they were. Each field of that row is the value the input provides;
  where the input provides none, it is the value of the row the store held before the
  two calls, or the default (\<open>seen\<close> and \<open>isFavorite\<close> false, \<open>reaction\<close> none, \<open>seenAt\<close>
  NULL) when it held none. Its \<open>createdAt\<close> is that of the row held before, or the
  time of the first call; its \<open>updatedAt\<close> is the time of the second call. This is the
  second call's merge of the input with the row the first call left, from which the
  row differs in \<open>updatedAt\<close> only.
\<close>

theorem updateUserFactState_twice_one_row:
  assumes auth: "locals_user ctx = Some u"
    and row: "f \<in> set (Facts db)"
    and target: "us_factId inp = f_id f"
    and pk: "distinct (map s_id (UserFactState db))"
    and inv: "length (filter (state_of (f_id f) u) (UserFactState db)) \<le> 1"
  shows "\<exists>r1 db1 r2 db2.
      updateUserFactState db now1 ctx inp = (Inr (Some r1), db1)
    \<and> updateUserFactState db1 now2 ctx inp = (Inr (Some r2), db2)
    \<and> filter (state_of (f_id f) u) (UserFactState db2) = [r2]
    \<and> filter (\<lambda>x. \<not> state_of (f_id f) u x) (UserFactState db2)
        = filter (\<lambda>x. \<not> state_of (f_id f) u x) (UserFactState db)
    \<and> s_userId r2 = u_id u \<and> s_factId r2 = f_id f \<and> s_updatedAt r2 = now2
    \<and> (case filter (state_of (f_id f) u) (UserFactState db) of
         [] \<Rightarrow>
           s_id r2 \<notin> set (map s_id (UserFactState db))
           \<and> s_seen r2 = (case us_seen inp of Some v \<Rightarrow> v | None \<Rightarrow> False)
           \<and> s_seenAt r2 = us_seenAt inp
           \<and> s_isFavorite r2 = (case us_isFavorite inp of Some v \<Rightarrow> v | None \<Rightarrow> False)
           \<and> s_reaction r2 = (case us_reaction inp of Some v \<Rightarrow> v | None \<Rightarrow> NoReaction)
           \<and> s_createdAt r2 = now1
       | e # others \<Rightarrow>
           s_id r2 = s_id e
           \<and> s_seen r2 = (case us_seen inp of Some v \<Rightarrow> v | None \<Rightarrow> s_seen e)
           \<and> s_seenAt r2 = (case us_seenAt inp of Some v \<Rightarrow> Some v | None \<Rightarrow> s_seenAt e)
           \<and> s_isFavorite r2 = (case us_isFavorite inp of Some v \<Rightarrow> v | None \<Rightarrow> s_isFavorite e)
           \<and> s_reaction r2 = (case us_reaction inp of Some v \<Rightarrow> v | None \<Rightarrow> s_reaction e)
           \<and> s_createdAt r2 = s_createdAt e)
    \<and> s_seen r2 = (case us_seen inp of Some v \<Rightarrow> v | None \<Rightarrow> s_seen r1)
    \<and> s_seenAt r2 = (case us_seenAt inp of Some v \<Rightarrow> Some v | None \<Rightarrow> s_seenAt r1)
    \<and> s_isFavorite r2 = (case us_isFavorite inp of Some v \<Rightarrow> v | None \<Rightarrow> s_isFavorite r1)
    \<and> s_reaction r2 = (case us_reaction inp of Some v \<Rightarrow> v | None \<Rightarrow> s_reaction r1)
    \<and> s_createdAt r2 = s_createdAt r1 \<and> s_id r2 = s_id r1
    \<and> s_updatedAt r1 = now1
    \<and> r2 = r1\<lparr>s_updatedAt := now2\<rparr>"
proof (cases "filter (state_of (us_factId inp) u) (UserFactState db)")
  case Nil
  then have none: "\<forall>r\<in>set (UserFactState db). \<not> state_of (us_factId inp) u r"
    by (simp add: filter_empty_conv)
  from Nil have before: "filter (state_of (f_id f) u) (UserFactState db) = []"
    by (simp add: target)
  define r1 where "r1 = baseValues inp u now1 None (fresh_state (next_id (map s_id (UserFactState db))))"
  define db1 where "db1 = db\<lparr>UserFactState := UserFactState db @ [r1]\<rparr>"
  define r2 where "r2 = baseValues inp u now2 (Some r1) r1"
  define db2 where "db2 = db1\<lparr>UserFactState := UserFactState db @ r2 # []\<rparr>"
  have c1: "updateUserFactState db now1 ctx inp = (Inr (Some r1), db1)"
    unfolding r1_def db1_def by (rule state_new [OF auth row target none])
  have id1: "s_id r1 = next_id (map s_id (UserFactState db))"
    by (simp add: r1_def baseValues_key fresh_state_def)
  have fresh: "s_id r1 \<notin> set (map s_id (UserFactState db))"
    unfolding id1 by (rule next_id_fresh)
  have pk1: "distinct (map s_id (UserFactState db1))"
    using pk fresh by (simp add: db1_def)
  have row1: "f \<in> set (Facts db1)" using row by (simp add: db1_def)
  have rows1: "UserFactState db1 = UserFactState db @ r1 # []" by (simp add: db1_def)
  have mine1: "state_of (us_factId inp) u r1"
    unfolding r1_def by (rule baseValues_state_of)
  have c2: "updateUserFactState db1 now2 ctx inp = (Inr (Some r2), db2)"
    unfolding r2_def db2_def by (rule state_existing [OF auth row1 target pk1 rows1 mine1 none])
  have mine2: "state_of (f_id f) u r2"
    using baseValues_state_of [of inp u now2 "Some r1" r1] by (simp add: r2_def target)
  from none have none': "\<forall>r\<in>set (UserFactState db). \<not> state_of (f_id f) u r"
    by (simp add: target)
  have one: "filter (state_of (f_id f) u) (UserFactState db2) = [r2]"
    using none' mine2 by (simp add: db2_def)
  have rest: "filter (\<lambda>x. \<not> state_of (f_id f) u x) (UserFactState db2)
        = filter (\<lambda>x. \<not> state_of (f_id f) u x) (UserFactState db)"
    using mine2 by (simp add: db2_def)
  have again: "r2 = r1\<lparr>s_updatedAt := now2\<rparr>"
    unfolding r2_def r1_def by (rule baseValues_again)
  have key2: "s_userId r2 = u_id u \<and> s_factId r2 = f_id f \<and> s_updatedAt r2 = now2
      \<and> s_id r2 = s_id r1 \<and> s_updatedAt r1 = now1"
    by (simp add: r2_def r1_def baseValues_key baseValues_insert_fields target)
  have fields1: "s_seen r1 = (case us_seen inp of Some v \<Rightarrow> v | None \<Rightarrow> False)
      \<and> s_seenAt r1 = us_seenAt inp
      \<and> s_isFavorite r1 = (case us_isFavorite inp of Some v \<Rightarrow> v | None \<Rightarrow> False)
      \<and> s_reaction r1 = (case us_reaction inp of Some v \<Rightarrow> v | None \<Rightarrow> NoReaction)
      \<and> s_createdAt r1 = now1"
    by (simp add: r1_def baseValues_insert_fields)
  then have fields2: "s_seen r2 = (case us_seen inp of Some v \<Rightarrow> v | None \<Rightarrow> False)
      \<and> s_seenAt r2 = us_seenAt inp
      \<and> s_isFavorite r2 = (case us_isFavorite inp of Some v \<Rightarrow> v | None \<Rightarrow> False)
      \<and> s_reaction r2 = (case us_reaction inp of Some v \<Rightarrow> v | None \<Rightarrow> NoReaction)
      \<and> s_createdAt r2 = now1"
    by (simp add: again)
  have merged: "s_seen r2 = (case us_seen inp of Some v \<Rightarrow> v | None \<Rightarrow> s_seen r1)
      \<and> s_seenAt r2 = (case us_seenAt inp of Some v \<Rightarrow> Some v | None \<Rightarrow> s_seenAt r1)
      \<and> s_isFavorite r2 = (case us_isFavorite inp of Some v \<Rightarrow> v | None \<Rightarrow> s_isFavorite r1)
      \<and> s_reaction r2 = (case us_reaction inp of Some v \<Rightarrow> v | None \<Rightarrow> s_reaction r1)
      \<and> s_createdAt r2 = s_createdAt r1"
    by (simp add: r2_def baseValues_update_fields)
  from fresh key2 have fresh2: "s_id r2 \<notin> set (map s_id (UserFactState db))"
    by simp
  show ?thesis
    apply (rule exI [of _ r1], rule exI [of _ db1], rule exI [of _ r2], rule exI [of _ db2])
    using c1 c2 one rest key2 fields2 merged again fresh2
    by (simp add: before)
next
  case (Cons e rest)
  with inv have "rest = []" by (simp add: target)
  with Cons obtain pre post where rows: "UserFactState db = pre @ e # post"
    and earlier: "\<forall>r\<in>set pre. \<not> state_of (us_factId inp) u r"
    and mine: "state_of (us_factId inp) u e"
    and later: "filter (state_of (us_factId inp) u) post = []"
    by (auto simp: filter_eq_Cons_iff)
  from Cons \<open>rest = []\<close> have before: "filter (state_of (f_id f) u) (UserFactState db) = [e]"
    by (simp add: target)
  define r1 where "r1 = baseValues inp u now1 (Some e) e"
  define db1 where "db1 = db\<lparr>UserFactState := pre @ r1 # post\<rparr>"
  define r2 where "r2 = baseValues inp u now2 (Some r1) r1"
  define db2 where "db2 = db1\<lparr>UserFactState := pre @ r2 # post\<rparr>"
  have c1: "updateUserFactState db now1 ctx inp = (Inr (Some r1), db1)"
    unfolding r1_def db1_def by (rule state_existing [OF auth row target pk rows mine earlier])
  have pk1: "distinct (map s_id (UserFactState db1))"
    using pk by (simp add: db1_def rows r1_def baseValues_key)
  have row1: "f \<in> set (Facts db1)" using row by (simp add: db1_def)
  have rows1: "UserFactState db1 = pre @ r1 # post" by (simp add: db1_def)
  have mine1: "state_of (us_factId inp) u r1"
    unfolding r1_def by (rule baseValues_state_of)
  have c2: "updateUserFactState db1 now2 ctx inp = (Inr (Some r2), db2)"
    unfolding r2_def db2_def by (rule state_existing [OF auth row1 target pk1 rows1 mine1 earlier])
  have mine2: "state_of (f_id f) u r2"
    using baseValues_state_of [of inp u now2 "Some r1" r1] by (simp add: r2_def target)
  have one: "filter (state_of (f_id f) u) (UserFactState db2) = [r2]"
    using earlier later mine2 by (simp add: db2_def target)
  have rest: "filter (\<lambda>x. \<not> state_of (f_id f) u x) (UserFactState db2)
        = filter (\<lambda>x. \<not> state_of (f_id f) u x) (UserFactState db)"
    using mine mine2 by (simp add: db2_def rows target)
  have again: "r2 = r1\<lparr>s_updatedAt := now2\<rparr>"
    unfolding r2_def r1_def by (rule baseValues_again)
  have key2: "s_userId r2 = u_id u \<and> s_factId r2 = f_id f \<and> s_updatedAt r2 = now2
      \<and> s_id r2 = s_id r1 \<and> s_updatedAt r1 = now1 \<and> s_id r2 = s_id e"
    by (simp add: r2_def r1_def baseValues_key baseValues_insert_fields target)
  have fields1: "s_seen r1 = (case us_seen inp of Some v \<Rightarrow> v | None \<Rightarrow> s_seen e)
      \<and> s_seenAt r1 = (case us_seenAt inp of Some v \<Rightarrow> Some v | None \<Rightarrow> s_seenAt e)
      \<and> s_isFavorite r1 = (case us_isFavorite inp of Some v \<Rightarrow> v | None \<Rightarrow> s_isFavorite e)
      \<and> s_reaction r1 = (case us_reaction inp of Some v \<Rightarrow> v | None \<Rightarrow> s_reaction e)
      \<and> s_createdAt r1 = s_createdAt e"
    by (simp add: r1_def baseValues_update_fields)
  then have fields2: "s_seen r2 = (case us_seen inp of Some v \<Rightarrow> v | None \<Rightarrow> s_seen e)
      \<and> s_seenAt r2 = (case us_seenAt inp of Some v \<Rightarrow> Some v | None \<Rightarrow> s_seenAt e)
      \<and> s_isFavorite r2 = (case us_isFavorite inp of Some v \<Rightarrow> v | None \<Rightarrow> s_isFavorite e)
      \<and> s_reaction r2 = (case us_reaction inp of Some v \<Rightarrow> v | None \<Rightarrow> s_reaction e)
      \<and> s_createdAt r2 = s_createdAt e"
    by (simp add: again)
  have merged: "s_seen r2 = (case us_seen inp of Some v \<Rightarrow> v | None \<Rightarrow> s_seen r1)
      \<and> s_seenAt r2 = (case us_seenAt inp of Some v \<Rightarrow> Some v | None \<Rightarrow> s_seenAt r1)
      \<and> s_isFavorite r2 = (case us_isFavorite inp of Some v \<Rightarrow> v | None \<Rightarrow> s_isFavorite r1)
      \<and> s_reaction r2 = (case us_reaction inp of Some v \<Rightarrow> v | None \<Rightarrow> s_reaction r1)
      \<and> s_createdAt r2 = s_createdAt r1"
    by (simp add: r2_def baseValues_update_fields)
  show ?thesis
    apply (rule exI [of _ r1], rule exI [of _ db1], rule exI [of _ r2], rule exI [of _ db2])
    using c1 c2 one rest key2 fields2 merged again
    by (simp add: before)
qed


theorem updateUserFactState_twice_witness:
  "\<exists>r1 db1 r2 db2.
      updateUserFactState viewed_store 200 (signed_in alice)
        \<lparr>us_factId = 2, us_seen = Some True, us_seenAt = Some 190, us_isFavorite = None,
         us_reaction = None\<rparr> = (Inr (Some r1), db1)
    \<and> updateUserFactState db1 300 (signed_in alice)
        \<lparr>us_factId = 2, us_seen = Some True, us_seenAt = Some 190, us_isFavorite = None,
         us_reaction = None\<rparr> = (Inr (Some r2), db2)
    \<and> filter (state_of 2 alice) (UserFactState db2) = [r2]
    \<and> filter (\<lambda>x. \<not> state_of 2 alice x) (UserFactState db2) = [bob_rome_state]
    \<and> s_id r2 = 2 \<and> s_userId r2 = ''alice'' \<and> s_factId r2 = 2
    \<and> s_seen r2 \<and> s_seenAt r2 = Some 190 \<and> s_isFavorite r2 \<and> s_reaction r2 = NoReaction
    \<and> s_createdAt r2 = 180 \<and> s_updatedAt r2 = 300
    \<and> r2 = r1\<lparr>s_updatedAt := 300\<rparr>"
proof -
  have row: "rome_fact \<in> set (Facts viewed_store)"
    by (simp add: viewed_store_def sample_store_def)
  have target: "us_factId \<lparr>us_factId = 2, us_seen = Some True, us_seenAt = Some 190,
      us_isFavorite = None, us_reaction = None\<rparr> = f_id rome_fact"
    by (simp add: rome_fact_def)
  have pk: "distinct (map s_id (UserFactState viewed_store))"
    by (simp add: viewed_defs)
  have before: "filter (state_of (f_id rome_fact) alice) (UserFactState viewed_store)
      = [alice_rome_state]"
    by (simp add: viewed_defs state_of_def rome_fact_def alice_def)
  have others: "filter (\<lambda>x. \<not> state_of (f_id rome_fact) alice x) (UserFactState viewed_store)
      = [bob_rome_state]"
    by (simp add: viewed_defs state_of_def rome_fact_def alice_def)
  have inv: "length (filter (state_of (f_id rome_fact) alice) (UserFactState viewed_store)) \<le> 1"
    by (simp add: before)
  have two: "f_id rome_fact = 2" and name: "u_id alice = ''alice''"
    by (simp_all add: rome_fact_def alice_def)
  note calls = updateUserFactState_twice_one_row [OF locals_user_signed_in row target pk inv, of 200 300,
      unfolded before others, unfolded two name]
  from calls show ?thesis
    by (auto simp: alice_rome_state_def)
qed

section \<open>What the handlers keep\<close>

text \<open>
  The hypotheses above hold of the empty store and are kept by the handlers that write:
  primary keys stay unique, and \<open>updateUserFactState\<close> keeps one row per user and fact.
\<close>

lemma state_of_key: "state_of i u r \<longleftrightarrow> state_key r = (u_id u, i)"
  by (auto simp: state_of_def state_key_def)

lemma one_row_per_key:
  assumes "distinct (map state_key rows)"
  shows "length (filter (state_of i u) rows) \<le> 1"
  using assms
proof (induction rows)
  case Nil
  then show ?case by simp
next
  case (Cons r rows)
  show ?case
  proof (cases "state_of i u r")
    case True
    with Cons.prems have "\<forall>x\<in>set rows. \<not> state_of i u x"
      by (auto simp: state_of_key image_iff)
    then have "filter (state_of i u) rows = []" by (simp add: filter_empty_conv)
    with True show ?thesis by simp
  next
    case False
    with Cons show ?thesis by simp
  qed
qed

lemma upsert_keeps_invariant:
  assumes pk: "distinct (map s_id (UserFactState db))"
    and uniq: "distinct (map state_key (UserFactState db))"
  shows "distinct (map s_id (UserFactState (snd (updateUserFactState db now ctx inp))))
       \<and> distinct (map state_key (UserFactState (snd (updateUserFactState db now ctx inp))))"
proof (cases "locals_user ctx")
  case None
  with pk uniq show ?thesis
    by (simp add: updateUserFactState_def requireUser_none)
next
  case (Some u)
  note auth = this
  show ?thesis
  proof (cases "select_one (\<lambda>r. f_id r = us_factId inp) (Facts db)")
    case None
    with pk uniq show ?thesis
      by (simp add: updateUserFactState_def requireUser_some [OF auth])
  next
    case (Some g)
    then have row: "g \<in> set (Facts db)" and target: "us_factId inp = f_id g"
      using select_one_some_mem [OF Some] by simp_all
    show ?thesis
    proof (cases "select_one (state_of (us_factId inp) u) (UserFactState db)")
      case None
      then have none: "\<forall>r\<in>set (UserFactState db). \<not> state_of (us_factId inp) u r"
        by (simp add: select_one_none_iff)
      then have "(u_id u, us_factId inp) \<notin> set (map state_key (UserFactState db))"
        by (auto simp: state_of_key)
      with pk uniq next_id_fresh [of "map s_id (UserFactState db)"] show ?thesis
        unfolding state_new [OF auth row target none]
        by (simp add: baseValues_key state_key_def fresh_state_def)
    next
      case (Some e)
      from select_one_split [OF this]
      obtain pre post where rows: "UserFactState db = pre @ e # post"
        and earlier: "\<forall>r\<in>set pre. \<not> state_of (us_factId inp) u r"
        and mine: "state_of (us_factId inp) u e"
        by blast
      have "state_key (baseValues inp u now (Some e) e) = state_key e"
        using mine by (simp add: state_of_key) (simp add: state_key_def baseValues_key)
      with pk uniq show ?thesis
        unfolding state_existing [OF auth row target pk rows mine earlier]
        by (simp add: rows baseValues_key)
    qed
  qed
qed

lemma update_keeps_keys:
  assumes "\<And>r. k (f r) = k r"
  shows "map k (map (\<lambda>r. if P r then f r else r) rows) = map k rows"
  using assms by (induction rows) simp_all

lemma createTopic_keeps_key:
  assumes "distinct (map t_id (FactTopics db))"
  shows "distinct (map t_id (FactTopics (snd (createTopic db now ctx inp))))"
  using assms next_id_fresh [of "map t_id (FactTopics db)"]
  by (cases "requireUser ctx") (simp_all add: createTopic_def insert_row_def)

lemma createFact_keeps_key:
  assumes "distinct (map f_id (Facts db))"
  shows "distinct (map f_id (Facts (snd (createFact db now ctx inp))))"
  using assms next_id_fresh [of "map f_id (Facts db)"]
  by (cases "requireUser ctx") (simp_all add: createFact_def insert_row_def)

lemma updateTopic_keeps_key:
  "map t_id (FactTopics (snd (updateTopic db now ctx inp))) = map t_id (FactTopics db)"
proof -
  have "t_id (topic_set inp now r) = t_id r" for r
    by (simp add: topic_set_def)
  then have "map t_id (map (\<lambda>r. if P r then topic_set inp now r else r) rows) = map t_id rows"
    for P rows by (rule update_keeps_keys)
  then show ?thesis
    by (cases "requireUser ctx")
      (simp_all add: updateTopic_def update_where_def split: option.split)
qed

lemma updateFact_keeps_key:
  "map f_id (Facts (snd (updateFact db now ctx inp))) = map f_id (Facts db)"
proof -
  have "f_id (fact_set inp now r) = f_id r" for r
    by (simp add: fact_set_def)
  then have "map f_id (map (\<lambda>r. if P r then fact_set inp now r else r) rows) = map f_id rows"
    for P rows by (rule update_keeps_keys)
  then show ?thesis
    by (cases "requireUser ctx")
      (simp_all add: updateFact_def update_where_def split: option.split)
qed

text \<open>An update that writes a reference writes one that the handler has found.\<close>

lemma updateFact_writes_existing_topic:
  assumes "updateFact db now ctx inp = (Inr r, db')" and "uf_topicId inp = Some i"
  shows "topic_exists db i"
  using assms
  by (cases "requireUser ctx")
    (auto simp: updateFact_def split: option.splits if_splits)

lemma updateUserFactState_writes_existing_fact:
  assumes "updateUserFactState db now ctx inp = (Inr r, db')"
  shows "fact_reference_holds db (us_factId inp)"
  using assms
  by (cases "requireUser ctx")
    (auto simp: updateUserFactState_def fact_reference_holds_def split: option.splits)

text \<open>Every store reached by calls in sequence has one state row per user and fact.\<close>

lemma other_handlers_keep_states:
  "UserFactState (snd (createTopic db now ctx ct)) = UserFactState db"
  "UserFactState (snd (updateTopic db now ctx ut)) = UserFactState db"
  "UserFactState (snd (createFact db now ctx cf)) = UserFactState db"
  "UserFactState (snd (updateFact db now ctx uf)) = UserFactState db"
  "UserFactState (snd (createRequest db now ctx cr)) = UserFactState db"
  by (cases "requireUser ctx";
      simp add: createTopic_def updateTopic_def createFact_def updateFact_def createRequest_def
        insert_row_def update_where_def split: option.split)+

lemma reachable_state_keys:
  assumes "reachable db"
  shows "distinct (map s_id (UserFactState db)) \<and> distinct (map state_key (UserFactState db))"
  using assms
proof (induction rule: reachable.induct)
  case start
  show ?case by (simp add: empty_store_def)
next
  case (state_updated db now ctx us)
  then show ?case by (simp add: upsert_keeps_invariant)
qed (simp_all add: other_handlers_keep_states)

lemma reachable_one_row_per_pair:
  assumes "reachable db"
  shows "distinct (map s_id (UserFactState db))
       \<and> length (filter (state_of i u) (UserFactState db)) \<le> 1"
  using reachable_state_keys [OF assms] one_row_per_key by blast

end
